theory Spec2Isabelle
  imports Complex_Main
begin

section \<open>JavaScript numbers\<close>

text \<open>
  The service computes on JavaScript numbers. They are modelled as exact reals extended
  with the two infinities and NaN: the special values and the way they propagate through
  arithmetic, comparisons and \<^verbatim>\<open>Math.min\<close>/\<^verbatim>\<open>Math.max\<close> follow the language. The
  rounding error of binary floating point, the overflow of a finite result to an infinity,
  the underflow of a small result, and the sign of zero are not modelled (a zero divisor
  counts as \<open>+0\<close>): a finite result is the exact real. In double arithmetic a printed
  level can therefore differ from the exact one in its last digit (\<open>28.5 \<sqdot> 0.99\<close> prints
  as \<open>28.21\<close>, the exact \<open>28.215\<close> as \<open>28.22\<close>), a product of a price above about
  \<open>1.5 \<sqdot> 10\<^sup>3\<^sup>0\<^sup>8\<close> can be \<open>Infinity\<close>, and \<open>x \<sqdot> 1.01\<close> is \<open>x\<close> itself for the smallest
  subnormal numbers. Where a property depends on the absence of overflow or underflow,
  its statement bounds the magnitude of the prices.
\<close>

datatype jsnum = Fin real | PInf | NInf | NaN

instantiation jsnum :: "{plus, minus, uminus, times, inverse, abs}"
begin

fun plus_jsnum :: "jsnum \<Rightarrow> jsnum \<Rightarrow> jsnum" where
  "plus_jsnum (Fin a) (Fin b) = Fin (a + b)"
| "plus_jsnum NaN _ = NaN"
| "plus_jsnum _ NaN = NaN"
| "plus_jsnum PInf NInf = NaN"
| "plus_jsnum NInf PInf = NaN"
| "plus_jsnum PInf _ = PInf"
| "plus_jsnum _ PInf = PInf"
| "plus_jsnum NInf _ = NInf"
| "plus_jsnum _ NInf = NInf"

fun uminus_jsnum :: "jsnum \<Rightarrow> jsnum" where
  "uminus_jsnum (Fin a) = Fin (- a)"
| "uminus_jsnum PInf = NInf"
| "uminus_jsnum NInf = PInf"
| "uminus_jsnum NaN = NaN"

definition minus_jsnum :: "jsnum \<Rightarrow> jsnum \<Rightarrow> jsnum" where
  "minus_jsnum a b = a + (- b)"

fun times_jsnum :: "jsnum \<Rightarrow> jsnum \<Rightarrow> jsnum" where
  "times_jsnum (Fin a) (Fin b) = Fin (a * b)"
| "times_jsnum NaN _ = NaN"
| "times_jsnum _ NaN = NaN"
| "times_jsnum PInf (Fin b) = (if b = 0 then NaN else if 0 < b then PInf else NInf)"
| "times_jsnum NInf (Fin b) = (if b = 0 then NaN else if 0 < b then NInf else PInf)"
| "times_jsnum (Fin a) PInf = (if a = 0 then NaN else if 0 < a then PInf else NInf)"
| "times_jsnum (Fin a) NInf = (if a = 0 then NaN else if 0 < a then NInf else PInf)"
| "times_jsnum PInf PInf = PInf"
| "times_jsnum NInf NInf = PInf"
| "times_jsnum PInf NInf = NInf"
| "times_jsnum NInf PInf = NInf"

fun divide_jsnum :: "jsnum \<Rightarrow> jsnum \<Rightarrow> jsnum" where
  "divide_jsnum (Fin a) (Fin b) =
     (if b = 0 then (if a = 0 then NaN else if 0 < a then PInf else NInf) else Fin (a / b))"
| "divide_jsnum NaN _ = NaN"
| "divide_jsnum _ NaN = NaN"
| "divide_jsnum (Fin a) PInf = Fin 0"
| "divide_jsnum (Fin a) NInf = Fin 0"
| "divide_jsnum PInf (Fin b) = (if 0 \<le> b then PInf else NInf)"
| "divide_jsnum NInf (Fin b) = (if 0 \<le> b then NInf else PInf)"
| "divide_jsnum _ _ = NaN"

fun inverse_jsnum :: "jsnum \<Rightarrow> jsnum" where
  "inverse_jsnum (Fin a) = (if a = 0 then PInf else Fin (1 / a))"
| "inverse_jsnum NaN = NaN"
| "inverse_jsnum _ = Fin 0"

fun abs_jsnum :: "jsnum \<Rightarrow> jsnum" where
  "abs_jsnum (Fin a) = Fin \<bar>a\<bar>"
| "abs_jsnum NaN = NaN"
| "abs_jsnum _ = PInf"

instance ..

end

text \<open>The relational operators: every comparison with NaN is false.\<close>

fun jlt :: "jsnum \<Rightarrow> jsnum \<Rightarrow> bool" where
  "jlt (Fin a) (Fin b) = (a < b)"
| "jlt NaN _ = False"
| "jlt _ NaN = False"
| "jlt _ NInf = False"
| "jlt PInf _ = False"
| "jlt _ _ = True"

definition jgt :: "jsnum \<Rightarrow> jsnum \<Rightarrow> bool" where
  "jgt a b = jlt b a"

definition jle :: "jsnum \<Rightarrow> jsnum \<Rightarrow> bool" where
  "jle a b = (a \<noteq> NaN \<and> b \<noteq> NaN \<and> \<not> jlt b a)"

definition jge :: "jsnum \<Rightarrow> jsnum \<Rightarrow> bool" where
  "jge a b = jle b a"

definition isNaN :: "jsnum \<Rightarrow> bool" where
  "isNaN x = (x = NaN)"

text \<open>Truthiness of a number: \<open>0\<close> and NaN are falsy; \<^verbatim>\<open>x || d\<close> on numbers.\<close>

definition truthy :: "jsnum \<Rightarrow> bool" where
  "truthy x = (x \<noteq> NaN \<and> x \<noteq> Fin 0)"

definition js_or :: "jsnum \<Rightarrow> jsnum \<Rightarrow> jsnum" where
  "js_or x d = (if truthy x then x else d)"

text \<open>\<^verbatim>\<open>Math.max\<close> and \<^verbatim>\<open>Math.min\<close>: NaN if an argument is NaN; with no argument
  \<open>-Infinity\<close> and \<open>Infinity\<close>.\<close>

definition jmax :: "jsnum \<Rightarrow> jsnum \<Rightarrow> jsnum" where
  "jmax a b = (if a = NaN \<or> b = NaN then NaN else if jlt a b then b else a)"

definition jmin :: "jsnum \<Rightarrow> jsnum \<Rightarrow> jsnum" where
  "jmin a b = (if a = NaN \<or> b = NaN then NaN else if jlt b a then b else a)"

definition js_max_list :: "jsnum list \<Rightarrow> jsnum" where
  "js_max_list xs = fold (\<lambda>x m. jmax m x) xs NInf"

definition js_min_list :: "jsnum list \<Rightarrow> jsnum" where
  "js_min_list xs = fold (\<lambda>x m. jmin m x) xs PInf"

fun js_round :: "jsnum \<Rightarrow> jsnum" where
  "js_round (Fin a) = Fin (of_int \<lfloor>a + 1 / 2\<rfloor>)"
| "js_round x = x"

fun js_sqrt :: "jsnum \<Rightarrow> jsnum" where
  "js_sqrt (Fin a) = (if a < 0 then NaN else Fin (sqrt a))"
| "js_sqrt PInf = PInf"
| "js_sqrt _ = NaN"

fun js_log :: "jsnum \<Rightarrow> jsnum" where
  "js_log (Fin a) = (if a < 0 then NaN else if a = 0 then NInf else Fin (ln a))"
| "js_log PInf = PInf"
| "js_log _ = NaN"

text \<open>
  \<^verbatim>\<open>Number(x.toFixed(2))\<close>: the nearest multiple of \<open>1/100\<close>, the larger magnitude on
  a tie; from \<open>10^21\<close> on \<^verbatim>\<open>toFixed\<close> prints the number itself.
\<close>

definition round2 :: "real \<Rightarrow> real" where
  "round2 a = (if 10 ^ 21 \<le> \<bar>a\<bar> then a
               else if 0 \<le> a then of_int \<lfloor>a * 100 + 1 / 2\<rfloor> / 100
               else - (of_int \<lfloor>- a * 100 + 1 / 2\<rfloor> / 100))"

fun toFixed2 :: "jsnum \<Rightarrow> jsnum" where
  "toFixed2 (Fin a) = Fin (round2 a)"
| "toFixed2 x = x"

subsection \<open>Arrays\<close>

text \<open>An index outside the array reads \<^verbatim>\<open>undefined\<close> (\<open>None\<close>), which arithmetic
  turns into NaN.\<close>

definition js_get :: "jsnum list \<Rightarrow> int \<Rightarrow> jsnum option" where
  "js_get xs i = (if 0 \<le> i \<and> i < int (length xs) then Some (xs ! nat i) else None)"

definition num_of :: "jsnum option \<Rightarrow> jsnum" where
  "num_of v = (case v of None \<Rightarrow> NaN | Some x \<Rightarrow> x)"

definition js_at :: "jsnum list \<Rightarrow> int \<Rightarrow> jsnum" where
  "js_at xs i = num_of (js_get xs i)"

definition js_last :: "jsnum list \<Rightarrow> jsnum option" where
  "js_last xs = js_get xs (int (length xs) - 1)"

text \<open>\<^verbatim>\<open>xs.slice(-n)\<close>, \<^verbatim>\<open>xs.slice(-a, -b)\<close> and \<^verbatim>\<open>xs.slice(a, b)\<close> for
  non-negative \<open>a\<close>, \<open>b\<close>.\<close>

definition slice_last :: "nat \<Rightarrow> 'a list \<Rightarrow> 'a list" where
  "slice_last n xs = drop (length xs - n) xs"

definition slice_neg :: "nat \<Rightarrow> nat \<Rightarrow> 'a list \<Rightarrow> 'a list" where
  "slice_neg a b xs = drop (length xs - a) (take (length xs - b) xs)"

definition slice :: "nat \<Rightarrow> nat \<Rightarrow> 'a list \<Rightarrow> 'a list" where
  "slice a b xs = drop a (take b xs)"

text \<open>\<^verbatim>\<open>xs.reduce((a, b) => a + b, 0)\<close>.\<close>

definition js_sum :: "jsnum list \<Rightarrow> jsnum" where
  "js_sum xs = fold (\<lambda>x s. s + x) xs (Fin 0)"

text \<open>A valid price series: every element is a positive finite number.\<close>

fun positive_finite :: "jsnum \<Rightarrow> bool" where
  "positive_finite (Fin r) = (0 < r)"
| "positive_finite _ = False"

definition valid_series :: "jsnum list \<Rightarrow> bool" where
  "valid_series prices = list_all positive_finite prices"

section \<open>Simple moving average\<close>

text \<open>\<^verbatim>\<open>calculateSMA\<close>: a rolling series as long as the input, \<open>0\<close> before the first
  full window.\<close>

definition calculateSMA :: "jsnum list \<Rightarrow> nat \<Rightarrow> jsnum list" where
  "calculateSMA prices period =
     (if prices = [] then [Fin 0]
      else map (\<lambda>i. if int i < int period - 1 then Fin 0
                     else js_sum (slice (i + 1 - period) (i + 1) prices) / Fin (real period))
             [0..<length prices])"

section \<open>Exponential moving average and MACD\<close>

text \<open>\<^verbatim>\<open>calculateEMA\<close>: seeded with the first price; on an empty array the seed is
  \<^verbatim>\<open>undefined\<close>, one element that reads as NaN.\<close>

fun ema_from :: "jsnum \<Rightarrow> jsnum \<Rightarrow> jsnum list \<Rightarrow> jsnum list" where
  "ema_from k prev [] = []"
| "ema_from k prev (p # ps) =
     (let e = p * k + prev * (Fin 1 - k) in e # ema_from k e ps)"

definition calculateEMA :: "jsnum list \<Rightarrow> nat \<Rightarrow> jsnum list" where
  "calculateEMA prices period =
     (let k = Fin 2 / (Fin (real period) + Fin 1)
      in case prices of [] \<Rightarrow> [NaN] | p # ps \<Rightarrow> p # ema_from k p ps)"

definition calculateMACD :: "jsnum list \<Rightarrow> jsnum" where
  "calculateMACD prices =
     (let ema12 = calculateEMA prices 12; ema26 = calculateEMA prices 26
      in last ema12 - last ema26)"

definition calculateMACDSignal :: "jsnum list \<Rightarrow> jsnum" where
  "calculateMACDSignal prices =
     (let ema12 = calculateEMA prices 12; ema26 = calculateEMA prices 26;
          macdLine = map (\<lambda>(a, b). a - b) (zip ema12 ema26);
          signal = calculateEMA macdLine 9
      in last signal)"

definition calculateMACDHistogram :: "jsnum list \<Rightarrow> jsnum" where
  "calculateMACDHistogram prices =
     (let macd = calculateMACD prices; signal = calculateMACDSignal prices
      in macd - signal)"

section \<open>Relative strength index\<close>

text \<open>The first loop of \<^verbatim>\<open>calculateRSI\<close> and \<^verbatim>\<open>calculateRSIArray\<close>: the gains and
  losses of the differences \<open>1 .. period\<close>.\<close>

definition rsi_initial :: "jsnum list \<Rightarrow> nat \<Rightarrow> jsnum \<times> jsnum" where
  "rsi_initial prices period =
     fold (\<lambda>i (gains, losses).
             let difference = js_at prices (int i) - js_at prices (int i - 1)
             in if jge difference (Fin 0) then (gains + difference, losses)
                else (gains, losses - difference))
          [1..<period + 1] (Fin 0, Fin 0)"

text \<open>One step of Wilder's smoothing, the body of the second loop.\<close>

definition wilder_step :: "nat \<Rightarrow> jsnum \<Rightarrow> jsnum \<times> jsnum \<Rightarrow> jsnum \<times> jsnum" where
  "wilder_step period difference avgs =
     (case avgs of (avgGain, avgLoss) \<Rightarrow>
        ((avgGain * Fin (real period - 1) + jmax (Fin 0) difference) / Fin (real period),
         (avgLoss * Fin (real period - 1) + jmax (Fin 0) (- difference)) / Fin (real period)))"

definition rsi_averages :: "jsnum list \<Rightarrow> nat \<Rightarrow> jsnum \<times> jsnum" where
  "rsi_averages prices period =
     (case rsi_initial prices period of (gains, losses) \<Rightarrow>
        fold (\<lambda>i avgs. wilder_step period
                          (js_at prices (int i) - js_at prices (int i - 1)) avgs)
             [period + 1..<length prices]
             (gains / Fin (real period), losses / Fin (real period)))"

definition calculateRSI :: "jsnum list \<Rightarrow> nat \<Rightarrow> jsnum" where
  "calculateRSI prices period =
     (if length prices < period + 1 then Fin 50
      else case rsi_averages prices period of (avgGain, avgLoss) \<Rightarrow>
        (let rs = (if avgLoss = Fin 0 then Fin 100 else avgGain / avgLoss);
             rsi = Fin 100 - Fin 100 / (Fin 1 + rs)
         in if isNaN rsi then Fin 50 else rsi))"

text \<open>\<^verbatim>\<open>calculateRSIArray\<close> has no length check and no guard on a zero average loss;
  it records one value per smoothing step.\<close>

definition calculateRSIArray :: "jsnum list \<Rightarrow> nat \<Rightarrow> jsnum list" where
  "calculateRSIArray prices period =
     (case rsi_initial prices period of (gains, losses) \<Rightarrow>
        snd (fold (\<lambda>i (avgs, rsiValues).
                     let avgs' = wilder_step period
                                   (js_at prices (int i) - js_at prices (int i - 1)) avgs;
                         rs = fst avgs' / snd avgs'
                     in (avgs', rsiValues @ [Fin 100 - Fin 100 / (Fin 1 + rs)]))
                  [period + 1..<length prices]
                  ((gains / Fin (real period), losses / Fin (real period)), [])))"

definition calculateStochRSI :: "jsnum list \<Rightarrow> nat \<Rightarrow> jsnum" where
  "calculateStochRSI prices period =
     (let rsiValues = calculateRSIArray prices period;
          minRSI = js_min_list rsiValues;
          maxRSI = js_max_list rsiValues;
          currentRSI = num_of (js_last rsiValues)
      in ((currentRSI - minRSI) / (maxRSI - minRSI)) * Fin 100)"

section \<open>Volatility and volume measures\<close>

definition calculateVolatility :: "jsnum list \<Rightarrow> jsnum" where
  "calculateVolatility prices =
     (if length prices < 2 then Fin 30
      else let returns = map (\<lambda>(price, prev). js_log (price / prev)) (zip (tl prices) prices);
               n = Fin (real (length returns));
               avgReturn = js_sum returns / n;
               squaredDiffs = map (\<lambda>ret. (ret - avgReturn) * (ret - avgReturn)) returns;
               variance = js_sum squaredDiffs / n;
               volatility = js_sqrt variance * js_sqrt (Fin 365) * Fin 100
           in if isNaN volatility then Fin 30 else jmin (Fin 100) (jmax (Fin 0) volatility))"

definition calculateVolumeTrend :: "jsnum list \<Rightarrow> jsnum" where
  "calculateVolumeTrend volumes =
     (if length volumes < 20 then Fin 0
      else let recentAvg = js_sum (slice_last 5 volumes) / Fin 5;
               historicalAvg = js_sum (slice_last 20 volumes) / Fin 20
           in (recentAvg - historicalAvg) / historicalAvg)"

definition calculateVolumeRatio :: "jsnum list \<Rightarrow> jsnum" where
  "calculateVolumeRatio volumes =
     (if length volumes < 20 then Fin 1
      else let recentVolume = js_sum (slice_last 5 volumes) / Fin 5;
               averageVolume = js_sum (slice_last 20 volumes) / Fin 20;
               ratio = recentVolume / averageVolume
           in if isNaN ratio then Fin 1 else jmax (Fin 0) ratio)"

section \<open>Directional movement\<close>

text \<open>The price series stands for the high, the low and the close at once: at step \<open>i\<close>
  the high is \<open>prices[i]\<close>, the low and the previous close are \<open>prices[i - 1]\<close>.\<close>

definition calculateTrueRange :: "jsnum list \<Rightarrow> jsnum list" where
  "calculateTrueRange prices =
     map (\<lambda>i. let high = js_at prices (int i);
                   low = js_at prices (int i - 1);
                   previousClose = js_at prices (int i - 1)
               in jmax (jmax (high - low) (abs (high - previousClose)))
                       (abs (low - previousClose)))
         [1..<length prices]"

definition calculateADX :: "jsnum list \<Rightarrow> nat \<Rightarrow> jsnum" where
  "calculateADX prices period =
     (let tr = calculateTrueRange prices;
          atr = js_sum (slice_last period tr) / Fin (real period);
          dmPlus = map (\<lambda>i. let high = js_at prices (int i)
                             in jmax (Fin 0) (high - js_at prices (int i - 1)))
                       [1..<length prices];
          dmMinus = map (\<lambda>i. let low = js_at prices (int i - 1)
                              in jmax (Fin 0) (js_at prices (int i - 1) - low))
                        [1..<length prices];
          diPlus = (js_sum dmPlus / Fin (real period)) / atr * Fin 100;
          diMinus = (js_sum dmMinus / Fin (real period)) / atr * Fin 100
      in abs (diPlus - diMinus) / (diPlus + diMinus) * Fin 100)"

definition calculateTrendIntensity :: "jsnum list \<Rightarrow> jsnum" where
  "calculateTrendIntensity prices =
     (let returns = map (\<lambda>(price, prev). (price - prev) / prev) (zip (tl prices) prices);
          positiveReturns = length (filter (\<lambda>r. jgt r (Fin 0)) returns);
          negativeReturns = length (filter (\<lambda>r. jlt r (Fin 0)) returns)
      in Fin (real positiveReturns - real negativeReturns) / Fin (real (length returns)))"

definition calculatePriceROC :: "jsnum list \<Rightarrow> jsnum" where
  "calculatePriceROC prices =
     (let period = 14
      in if length prices < period then Fin 0
         else let currentPrice = js_at prices (int (length prices) - 1);
                  oldPrice = js_at prices (int (length prices) - int period)
              in ((currentPrice - oldPrice) / oldPrice) * Fin 100)"

section \<open>Market phase\<close>

record KeyLevels =
  strongSupport :: jsnum
  support :: jsnum
  pivot :: jsnum
  resistance :: jsnum
  strongResistance :: jsnum

record MarketCondition =
  phase :: string
  strength :: jsnum
  confidence :: jsnum
  keyLevels :: KeyLevels

text \<open>The trend-strength model is an external collaborator: a function from the four
  features to a scalar, or a rejection (\<open>Inl\<close>).\<close>

type_synonym trend_model = "jsnum list \<Rightarrow> string + jsnum"

definition analyzeTrendStrength :: "trend_model \<Rightarrow> jsnum list \<Rightarrow> jsnum list \<Rightarrow> string + jsnum" where
  "analyzeTrendStrength model prices volumes =
     (let adx = calculateADX prices 14;
          trendIntensity = calculateTrendIntensity prices;
          priceROC = calculatePriceROC prices;
          volumeTrend = calculateVolumeTrend volumes
      in model [adx, trendIntensity, priceROC, volumeTrend])"

definition calculateConfidence :: "jsnum list \<Rightarrow> jsnum" where
  "calculateConfidence indicators =
     (let avgStrength = js_sum indicators / Fin (real (length indicators))
      in jmin (Fin 95) (jmax (Fin 30) avgStrength))"

text \<open>\<^verbatim>\<open>toLowerCase\<close> on the ASCII letters, which the keys of the table of default
  ranges are made of.\<close>

definition toLowerCase :: "string \<Rightarrow> string" where
  "toLowerCase s =
     map (\<lambda>c. let n = (of_char c :: nat) in if 65 \<le> n \<and> n \<le> 90 then char_of (n + 32) else c) s"

text \<open>
  The table of default ranges is an object literal that is read with
  \<^verbatim>\<open>defaultRanges[crypto.toLowerCase()]\<close>. Such a lookup finds the five own keys, and
  it also finds the members that every object inherits from \<^verbatim>\<open>Object.prototype\<close>. A
  lower-cased key can only name the two of them that are spelled without capitals,
  \<^verbatim>\<open>constructor\<close> and \<^verbatim>\<open>__proto__\<close>: the lookup then yields a function or an object
  that counts as true and has neither a \<^verbatim>\<open>support\<close> nor a \<^verbatim>\<open>resistance\<close>.
\<close>

datatype range_entry = OwnRange jsnum jsnum | InheritedMember | NoEntry

definition defaultRanges :: "string \<Rightarrow> range_entry" where
  "defaultRanges key =
     (if key = ''bitcoin'' then OwnRange (Fin 65000) (Fin 70000)
      else if key = ''ethereum'' then OwnRange (Fin 2300) (Fin 2500)
      else if key = ''binancecoin'' then OwnRange (Fin 280) (Fin 320)
      else if key = ''cardano'' then OwnRange (Fin 0.45) (Fin 0.55)
      else if key = ''solana'' then OwnRange (Fin 90) (Fin 110)
      else if key = ''constructor'' \<or> key = ''__proto__'' then InheritedMember
      else NoEntry)"

text \<open>
  \<^verbatim>\<open>getDefaultMarketPhase\<close>. An own entry is used as it is, a missing entry is replaced
  by the band of five percent around the current price. On an inherited member
  \<^verbatim>\<open>range.support\<close> is \<^verbatim>\<open>undefined\<close> and \<^verbatim>\<open>range.support.toFixed(2)\<close> throws a
  \<^verbatim>\<open>TypeError\<close> (\<open>Inl\<close>).
\<close>

definition getDefaultMarketPhase :: "jsnum \<Rightarrow> string \<Rightarrow> string + MarketCondition" where
  "getDefaultMarketPhase currentPrice crypto =
     (case (case defaultRanges (toLowerCase crypto) of
              OwnRange s r \<Rightarrow> Some (s, r)
            | NoEntry \<Rightarrow> Some (currentPrice * Fin 0.95, currentPrice * Fin 1.05)
            | InheritedMember \<Rightarrow> None) of
        None \<Rightarrow> Inl ''TypeError''
      | Some rng \<Rightarrow>
          Inr \<lparr> phase = ''Analyzing'',
                strength = Fin 0.5,
                confidence = Fin 50,
                keyLevels = \<lparr> strongSupport = toFixed2 (fst rng * Fin 0.98),
                              support = toFixed2 (fst rng),
                              pivot = toFixed2 currentPrice,
                              resistance = toFixed2 (snd rng),
                              strongResistance = toFixed2 (snd rng * Fin 1.02) \<rparr> \<rparr>)"

text \<open>
  The pieces of \<^verbatim>\<open>calculateMarketPhase\<close>, named after its local variables: the
  support and resistance levels, the phase label, and the key levels after rounding and
  after the two validation steps, which replace a resistance that is NaN or \<open>0\<close>.
\<close>

definition supportLevel :: "jsnum \<Rightarrow> jsnum \<Rightarrow> jsnum \<Rightarrow> jsnum \<Rightarrow> jsnum" where
  "supportLevel lowPrice ma20 ma50 currentPrice =
     jmax (jmax lowPrice (jmin ma20 ma50 * Fin 0.995)) (currentPrice * Fin 0.95)"

definition resistanceLevel :: "jsnum \<Rightarrow> jsnum \<Rightarrow> jsnum \<Rightarrow> jsnum \<Rightarrow> jsnum \<Rightarrow> jsnum" where
  "resistanceLevel highPrice ma20 ma50 currentPrice supportL =
     jmax (jmin (jmin highPrice (jmax ma20 ma50 * Fin 1.005)) (currentPrice * Fin 1.05))
          (supportL * Fin 1.01)"

definition phaseLabel :: "bool \<Rightarrow> bool \<Rightarrow> bool \<Rightarrow> bool \<Rightarrow> string" where
  "phaseLabel aboveMA50 aboveMA200 ma50AboveMA200 ma20AboveMA50 =
     (if aboveMA50 \<and> ma50AboveMA200 \<and> ma20AboveMA50 then ''bullish''
      else if \<not> aboveMA50 \<and> \<not> ma50AboveMA200 \<and> \<not> ma20AboveMA50 then ''bearish''
      else if aboveMA200 \<and> \<not> aboveMA50 then ''correction''
      else if \<not> aboveMA200 \<and> aboveMA50 then ''recovery''
      else ''sideways'')"

definition validatedKeyLevels :: "jsnum \<Rightarrow> jsnum \<Rightarrow> jsnum \<Rightarrow> KeyLevels" where
  "validatedKeyLevels currentPrice supportL resistanceL =
     (let levels = \<lparr> strongSupport = toFixed2 (supportL * Fin 0.99),
                      support = toFixed2 supportL,
                      pivot = toFixed2 currentPrice,
                      resistance = toFixed2 resistanceL,
                      strongResistance = toFixed2 (resistanceL * Fin 1.01) \<rparr>;
          levels1 = (if isNaN (resistance levels) \<or> resistance levels = Fin 0
                     then levels\<lparr> resistance := toFixed2 (currentPrice * Fin 1.05) \<rparr>
                     else levels)
      in if isNaN (strongResistance levels1) \<or> strongResistance levels1 = Fin 0
         then levels1\<lparr> strongResistance := toFixed2 (resistance levels1 * Fin 1.01) \<rparr>
         else levels1)"

text \<open>
  \<^verbatim>\<open>calculateMarketPhase\<close>. The body runs in a \<^verbatim>\<open>try\<close>: a rejection of the trend
  model, or \<^verbatim>\<open>currentPrice.toFixed\<close> on the \<^verbatim>\<open>undefined\<close> last element of an empty
  series, ends in the \<^verbatim>\<open>catch\<close>, which returns what \<^verbatim>\<open>getDefaultMarketPhase\<close>
  returns and throws when it throws (\<open>Inl\<close>). The moving averages are read at index \<open>0\<close>
  of the rolling series.
\<close>

definition calculateMarketPhase ::
  "trend_model \<Rightarrow> jsnum list \<Rightarrow> jsnum list \<Rightarrow> string \<Rightarrow> string + MarketCondition" where
  "calculateMarketPhase model prices volumeData crypto =
     (let caught = getDefaultMarketPhase (js_or (num_of (js_last prices)) (Fin 0)) crypto;
          currentPrice = num_of (js_last prices);
          ma20 = hd (calculateSMA prices 20);
          ma50 = hd (calculateSMA prices 50);
          ma200 = hd (calculateSMA prices 200);
          aboveMA20 = jgt currentPrice ma20;
          aboveMA50 = jgt currentPrice ma50;
          aboveMA200 = jgt currentPrice ma200;
          ma50AboveMA200 = jgt ma50 ma200;
          ma20AboveMA50 = jgt ma20 ma50;
          recentPrices = slice_last 20 prices;
          highPrice = js_max_list recentPrices;
          lowPrice = js_min_list recentPrices;
          supportL = supportLevel lowPrice ma20 ma50 currentPrice;
          resistanceL = resistanceLevel highPrice ma20 ma50 currentPrice supportL;
          phaseL = phaseLabel aboveMA50 aboveMA200 ma50AboveMA200 ma20AboveMA50
      in case analyzeTrendStrength model prices volumeData of
           Inl e \<Rightarrow> caught
         | Inr trendStrength \<Rightarrow>
             (let phaseStrength = abs trendStrength;
                  conf = calculateConfidence
                           [phaseStrength * Fin 100,
                            if aboveMA50 then Fin 60 else Fin 40,
                            if aboveMA200 then Fin 60 else Fin 40,
                            (currentPrice - supportL) / (resistanceL - supportL) * Fin 100]
              in if js_last prices = None then caught
                 else Inr \<lparr> phase = phaseL,
                            strength = toFixed2 phaseStrength,
                            confidence = toFixed2 conf,
                            keyLevels = validatedKeyLevels currentPrice supportL resistanceL \<rparr>))"

section \<open>Price predictions\<close>

record PriceRange =
  low :: jsnum
  high :: jsnum

record Prediction =
  price :: PriceRange
  pred_confidence :: jsnum
  signals :: "string list"

record Predictions =
  shortTerm :: Prediction
  midTerm :: Prediction
  longTerm :: Prediction

record PredictionData =
  pd_prices :: "jsnum list"
  pd_volumes :: "jsnum list"
  pd_currentPrice :: jsnum
  pd_volatility :: jsnum
  pd_sentiment :: jsnum

definition generatePredictionSignals :: "jsnum \<Rightarrow> jsnum \<Rightarrow> jsnum \<Rightarrow> string list" where
  "generatePredictionSignals lo hi vol =
     (let rng = (hi - lo) / lo
      in (if jgt rng (Fin 0.05) then [''Moderate price movement expected'']
          else if jgt rng (Fin 0.10) then [''Significant price movement expected'']
          else [''Stable price action expected''])
       @ (if jgt vol (Fin 0.03) then [''Higher than average volatility'']
          else if jlt vol (Fin 0.01) then [''Lower than average volatility'']
          else []))"

definition getDefaultPredictions :: "jsnum \<Rightarrow> Predictions" where
  "getDefaultPredictions currentPrice =
     \<lparr> shortTerm = \<lparr> price = \<lparr> low = currentPrice * Fin 0.95, high = currentPrice * Fin 1.05 \<rparr>,
                     pred_confidence = Fin 50, signals = [''Default prediction''] \<rparr>,
       midTerm = \<lparr> price = \<lparr> low = currentPrice * Fin 0.90, high = currentPrice * Fin 1.10 \<rparr>,
                   pred_confidence = Fin 40, signals = [''Default prediction''] \<rparr>,
       longTerm = \<lparr> price = \<lparr> low = currentPrice * Fin 0.85, high = currentPrice * Fin 1.15 \<rparr>,
                    pred_confidence = Fin 30, signals = [''Default prediction''] \<rparr> \<rparr>"

text \<open>The closure \<^verbatim>\<open>adjustRanges\<close> of \<^verbatim>\<open>predictPriceTargets\<close>.\<close>

definition adjustRanges :: "jsnum \<Rightarrow> jsnum \<Rightarrow> jsnum \<Rightarrow> PriceRange \<Rightarrow> PriceRange" where
  "adjustRanges currentPrice sentimentFactor trendFactor rng =
     (let sentimentAdjustment = currentPrice * sentimentFactor;
          trendAdjustment = currentPrice * trendFactor
      in \<lparr> low = jmax (low rng + sentimentAdjustment + trendAdjustment)
                      (currentPrice * Fin 0.85),
           high = jmin (high rng + sentimentAdjustment + trendAdjustment)
                       (currentPrice * Fin 1.15) \<rparr>)"

text \<open>The local \<^verbatim>\<open>trendFactor\<close> of \<^verbatim>\<open>predictPriceTargets\<close>: the relative change over
  the last 20 prices, capped at 3 per cent either way.\<close>

definition recentTrendFactor :: "jsnum list \<Rightarrow> jsnum" where
  "recentTrendFactor prices =
     (let recentPrices = slice_last 20 prices
      in jmin (Fin 0.03) (jmax (- Fin 0.03)
           ((js_at recentPrices (int (length recentPrices) - 1) - js_at recentPrices 0)
              / js_at recentPrices 0)))"

text \<open>\<^verbatim>\<open>predictPriceTargets\<close>: nothing in its \<^verbatim>\<open>try\<close> block throws on numbers and
  arrays, so the \<^verbatim>\<open>catch\<close> with the default predictions is never entered.\<close>

definition predictPriceTargets :: "PredictionData \<Rightarrow> Predictions" where
  "predictPriceTargets data =
     (let volatilityFactor = jmin (Fin 0.05) (pd_volatility data / Fin 1000);
          sentimentFactor = ((pd_sentiment data - Fin 50) / Fin 100) * Fin 0.02;
          trendFactor = recentTrendFactor (pd_prices data);
          shortTermRange =
            \<lparr> low = pd_currentPrice data * (Fin 1 - (volatilityFactor + Fin 0.01)),
              high = pd_currentPrice data * (Fin 1 + (volatilityFactor + Fin 0.01)) \<rparr>;
          midTermRange =
            \<lparr> low = pd_currentPrice data * (Fin 1 - (volatilityFactor * Fin 2 + Fin 0.02)),
              high = pd_currentPrice data * (Fin 1 + (volatilityFactor * Fin 2 + Fin 0.02)) \<rparr>;
          longTermRange =
            \<lparr> low = pd_currentPrice data * (Fin 1 - (volatilityFactor * Fin 3 + Fin 0.03)),
              high = pd_currentPrice data * (Fin 1 + (volatilityFactor * Fin 3 + Fin 0.03)) \<rparr>;
          adjust = adjustRanges (pd_currentPrice data) sentimentFactor trendFactor;
          baseConfidence = jmin (Fin 90) (jmax (Fin 50)
            (Fin 70 - (volatilityFactor * Fin 100) + (abs sentimentFactor * Fin 100)))
      in \<lparr> shortTerm =
             \<lparr> price = adjust shortTermRange,
               pred_confidence = baseConfidence,
               signals = generatePredictionSignals (low shortTermRange) (high shortTermRange)
                           volatilityFactor \<rparr>,
           midTerm =
             \<lparr> price = adjust midTermRange,
               pred_confidence = jmax (Fin 40) (baseConfidence * Fin 0.9),
               signals = generatePredictionSignals (low midTermRange) (high midTermRange)
                           (volatilityFactor * Fin 2) \<rparr>,
           longTerm =
             \<lparr> price = adjust longTermRange,
               pred_confidence = jmax (Fin 30) (baseConfidence * Fin 0.8),
               signals = generatePredictionSignals (low longTermRange) (high longTermRange)
                           (volatilityFactor * Fin 3) \<rparr> \<rparr>)"

section \<open>Technical signals\<close>

definition interpretRSI :: "jsnum \<Rightarrow> string" where
  "interpretRSI r =
     (if jgt r (Fin 70) then ''overbought''
      else if jlt r (Fin 30) then ''oversold''
      else ''neutral'')"

definition interpretStochRSI :: "jsnum \<Rightarrow> string" where
  "interpretStochRSI r =
     (if jgt r (Fin 80) then ''extremely overbought''
      else if jgt r (Fin 60) then ''overbought''
      else if jlt r (Fin 20) then ''extremely oversold''
      else if jlt r (Fin 40) then ''oversold''
      else ''neutral'')"

definition interpretMACD :: "jsnum \<Rightarrow> jsnum \<Rightarrow> jsnum \<Rightarrow> string" where
  "interpretMACD v sig histogram =
     (if jgt histogram (Fin 0)
      then (if jgt histogram (histogram * Fin 0.1) then ''Strong bullish momentum''
            else ''Bullish momentum'')
      else (if jlt histogram (- histogram * Fin 0.1) then ''Strong bearish momentum''
            else ''Bearish momentum''))
     @ (if jgt v (Fin 0) \<and> jgt sig (Fin 0) then '', upward trend''
        else if jlt v (Fin 0) \<and> jlt sig (Fin 0) then '', downward trend''
        else [])
     @ (if jlt (abs (v - sig)) (Fin 0.1) then '', potential trend reversal'' else [])"

definition categorizeVolatilityRisk :: "jsnum \<Rightarrow> string" where
  "categorizeVolatilityRisk v =
     (if jgt v (Fin 80) then ''high''
      else if jgt v (Fin 40) then ''medium''
      else ''low'')"

text \<open>
  \<^verbatim>\<open>determineTrendDirection\<close> compares the three rolling series themselves with \<open>>\<close>
  and \<open><\<close>. On arrays the operators compare the printed forms (the elements joined by
  commas) as strings, code unit by code unit. The printing of a number is a parameter.
\<close>

fun js_str_lt :: "string \<Rightarrow> string \<Rightarrow> bool" where
  "js_str_lt [] [] = False"
| "js_str_lt [] (y # ys) = True"
| "js_str_lt (x # xs) [] = False"
| "js_str_lt (x # xs) (y # ys) =
     (if x = y then js_str_lt xs ys else (of_char x :: nat) < of_char y)"

definition array_toString :: "(jsnum \<Rightarrow> string) \<Rightarrow> jsnum list \<Rightarrow> string" where
  "array_toString numToString xs =
     (case xs of [] \<Rightarrow> []
      | y # ys \<Rightarrow> numToString y @ concat (map (\<lambda>x. '','' @ numToString x) ys))"

definition array_gt :: "(jsnum \<Rightarrow> string) \<Rightarrow> jsnum list \<Rightarrow> jsnum list \<Rightarrow> bool" where
  "array_gt numToString a b =
     js_str_lt (array_toString numToString b) (array_toString numToString a)"

definition determineTrendDirection :: "(jsnum \<Rightarrow> string) \<Rightarrow> jsnum list \<Rightarrow> string" where
  "determineTrendDirection numToString prices =
     (let ma20 = calculateSMA prices 20;
          ma50 = calculateSMA prices 50;
          ma200 = calculateSMA prices 200
      in if array_gt numToString ma20 ma50 \<and> array_gt numToString ma50 ma200 then ''bullish''
         else if array_gt numToString ma50 ma20 \<and> array_gt numToString ma200 ma50
              then ''bearish''
         else ''neutral'')"

definition determineSecondaryTrend :: "jsnum list \<Rightarrow> string" where
  "determineSecondaryTrend prices =
     (let shortMAValues = calculateEMA (slice_last 20 prices) 5;
          mediumMAValues = calculateEMA (slice_last 20 prices) 10;
          shortMA = last shortMAValues;
          mediumMA = last mediumMAValues
      in if jgt shortMA mediumMA then ''bullish''
         else if jlt shortMA mediumMA then ''bearish''
         else ''neutral'')"

definition determineVolatilityTrend :: "jsnum list \<Rightarrow> string" where
  "determineVolatilityTrend prices =
     (if length prices < 100 then ''stable''
      else let currentVol = calculateVolatility (slice_last 50 prices);
               previousVol = calculateVolatility (slice_neg 100 50 prices)
           in if jgt currentVol (previousVol * Fin 1.2) then ''increasing''
              else if jlt currentVol (previousVol * Fin 0.8) then ''decreasing''
              else ''stable'')"

definition determineVolumeTrend :: "jsnum list \<Rightarrow> string" where
  "determineVolumeTrend volumes =
     (if length volumes < 100 then ''neutral''
      else let recentAvg = js_sum (slice_last 50 volumes) / Fin 50;
               previousAvg = js_sum (slice_neg 100 50 volumes) / Fin 50
           in if jgt recentAvg (previousAvg * Fin 1.1) then ''increasing''
              else if jlt recentAvg (previousAvg * Fin 0.9) then ''decreasing''
              else ''neutral'')"

subsection \<open>Volume profile\<close>

record VolumeProfile =
  poc :: jsnum
  valueAreaHigh :: jsnum
  valueAreaLow :: jsnum
  supports :: "jsnum list"
  resistances :: "jsnum list"
  buyingPressure :: jsnum
  sellingPressure :: jsnum
  profileStrength :: jsnum

text \<open>The \<^verbatim>\<open>Map\<close> from price level to volume, as an association list in insertion order.\<close>

fun map_set :: "(jsnum \<times> jsnum) list \<Rightarrow> jsnum \<Rightarrow> jsnum \<Rightarrow> (jsnum \<times> jsnum) list" where
  "map_set [] k v = [(k, v)]"
| "map_set ((k', v') # m) k v = (if k' = k then (k, v) # m else (k', v') # map_set m k v)"

definition map_get :: "(jsnum \<times> jsnum) list \<Rightarrow> jsnum \<Rightarrow> jsnum option" where
  "map_get m k = map_of m k"

definition buildPriceVolume :: "jsnum list \<Rightarrow> jsnum list \<Rightarrow> (jsnum \<times> jsnum) list" where
  "buildPriceVolume prices volumes =
     fold (\<lambda>i priceVolume.
             let roundedPrice = js_round (js_at prices (int i) / Fin 10) * Fin 10
             in map_set priceVolume roundedPrice
                  (js_or (num_of (map_get priceVolume roundedPrice)) (Fin 0)
                     + js_at volumes (int i)))
          [0..<length prices] []"

text \<open>\<^verbatim>\<open>sort((a, b) => a - b)\<close> on the keys: ascending; the comparator is consistent on
  keys that are not NaN, where every sorting procedure gives this order.\<close>

fun insert_asc :: "jsnum \<Rightarrow> jsnum list \<Rightarrow> jsnum list" where
  "insert_asc x [] = [x]"
| "insert_asc x (y # ys) =
     (if jgt (y - x) (Fin 0) then x # y # ys else y # insert_asc x ys)"

definition sort_asc :: "jsnum list \<Rightarrow> jsnum list" where
  "sort_asc xs = fold insert_asc xs []"

text \<open>\<^verbatim>\<open>indexOf\<close>: the first index holding a strictly equal value, \<open>-1\<close> when there is none;
  NaN is never found.\<close>

fun indexOf :: "jsnum list \<Rightarrow> jsnum \<Rightarrow> int" where
  "indexOf [] x = - 1"
| "indexOf (y # ys) x =
     (if y = x \<and> x \<noteq> NaN then 0
      else let r = indexOf ys x in if r < 0 then - 1 else r + 1)"

text \<open>
  The \<^verbatim>\<open>while\<close> loop that widens the value area. It need not terminate (neither bound
  moves when the next lower level holds no volume and there is no higher level), so it is
  a partial function: \<open>None\<close> stands for a loop that runs forever.
\<close>

partial_function (option) valueAreaLoop ::
  "(jsnum \<times> jsnum) list \<Rightarrow> jsnum list \<Rightarrow> jsnum \<Rightarrow> jsnum \<Rightarrow> jsnum \<Rightarrow> jsnum
     \<Rightarrow> (jsnum \<times> jsnum \<times> jsnum) option" where
  "valueAreaLoop priceVolume pricesSorted valueAreaVolume volumeSum lo hi =
     (if jlt volumeSum valueAreaVolume
         \<and> (jgt lo (js_at pricesSorted 0)
              \<or> jlt hi (js_at pricesSorted (int (length pricesSorted) - 1)))
      then
        (let nextLow = num_of (js_get pricesSorted (indexOf pricesSorted lo - 1));
             nextHigh = num_of (js_get pricesSorted (indexOf pricesSorted hi + 1));
             lowVolume = (if truthy nextLow
                          then js_or (num_of (map_get priceVolume nextLow)) (Fin 0)
                          else Fin 0);
             highVolume = (if truthy nextHigh
                           then js_or (num_of (map_get priceVolume nextHigh)) (Fin 0)
                           else Fin 0)
         in if jgt lowVolume highVolume
            then valueAreaLoop priceVolume pricesSorted valueAreaVolume
                   (volumeSum + lowVolume) (if truthy nextLow then nextLow else lo) hi
            else valueAreaLoop priceVolume pricesSorted valueAreaVolume
                   (volumeSum + highVolume) lo (if truthy nextHigh then nextHigh else hi))
      else Some (volumeSum, lo, hi))"

definition calculateVolumeProfile :: "jsnum list \<Rightarrow> jsnum list \<Rightarrow> VolumeProfile option" where
  "calculateVolumeProfile prices volumes =
     (if prices = [] \<or> volumes = []
      then Some \<lparr> poc = Fin 0, valueAreaHigh = Fin 0, valueAreaLow = Fin 0,
                  supports = [Fin 0], resistances = [Fin 0],
                  buyingPressure = Fin 0.5, sellingPressure = Fin 0.5,
                  profileStrength = Fin 0.5 \<rparr>
      else
        (let currentPrice = js_at prices (int (length prices) - 1);
             priceVolume = buildPriceVolume prices volumes;
             best = fold (\<lambda>(level, vol) (maxVolume, p).
                            if jgt vol maxVolume then (vol, level) else (maxVolume, p))
                         priceVolume (Fin 0, currentPrice);
             maxVolume = fst best;
             pocLevel = snd best;
             totalVolume = js_sum (map snd priceVolume);
             valueAreaVolume = totalVolume * Fin 0.68;
             pricesSorted = sort_asc (map fst priceVolume)
         in case valueAreaLoop priceVolume pricesSorted valueAreaVolume
                   (Fin 0) pocLevel pocLevel of
              None \<Rightarrow> None
            | Some (volumeSum, lo, hi) \<Rightarrow>
                Some \<lparr> poc = pocLevel, valueAreaHigh = hi, valueAreaLow = lo,
                       supports = [lo], resistances = [hi],
                       buyingPressure = volumeSum / totalVolume,
                       sellingPressure = Fin 1 - (volumeSum / totalVolume),
                       profileStrength = maxVolume / totalVolume \<rparr>))"

subsection \<open>The signal bundle\<close>

record TrendSignals =
  primary :: string
  secondary :: string
  trend_strength :: jsnum

record Reading =
  reading_value :: jsnum
  reading_signal :: string

record MomentumSignals =
  rsi_reading :: Reading
  macd_reading :: Reading
  stochRSI_reading :: Reading

record VolatilitySignals =
  vol_current :: jsnum
  vol_trend :: string
  vol_risk :: string

record VolumeSignals =
  volume_change :: jsnum
  volume_trend :: string
  volume_significance :: string

record TechnicalSignals =
  ts_trend :: TrendSignals
  ts_momentum :: MomentumSignals
  ts_volatility :: VolatilitySignals
  ts_volume :: VolumeSignals

text \<open>\<^verbatim>\<open>x || d\<close> on strings: the empty string is falsy.\<close>

definition str_or :: "string \<Rightarrow> string \<Rightarrow> string" where
  "str_or s d = (if s = [] then d else s)"

text \<open>
  \<^verbatim>\<open>calculateTechnicalSignals\<close>: it throws (\<open>Inl\<close>) on fewer than 200 prices and on a
  price that is NaN or not positive, and it does not return (\<open>None\<close>) when the loop of the
  volume profile does not end.
\<close>

definition calculateTechnicalSignals ::
  "(jsnum \<Rightarrow> string) \<Rightarrow> jsnum list \<Rightarrow> jsnum list \<Rightarrow> (string + TechnicalSignals) option" where
  "calculateTechnicalSignals numToString prices volumes =
     (if length prices < 200 then Some (Inl ''Insufficient price data'')
      else if list_ex (\<lambda>p. isNaN p \<or> jle p (Fin 0)) prices
      then Some (Inl ''Invalid price data detected'')
      else
        (let rsiValue = calculateRSI prices 14;
             macdValue = calculateMACD prices;
             macdSignal = calculateMACDSignal prices;
             macdHistogram = calculateMACDHistogram prices;
             stochRSI = calculateStochRSI prices 14;
             volumeChange = (if 0 < length volumes
                             then calculateVolumeRatio (slice_last 100 volumes) else Fin 1);
             volatilityValue = calculateVolatility (slice_last 100 prices);
             primaryTrend = determineTrendDirection numToString prices;
             secondaryTrend = determineSecondaryTrend prices
         in case calculateVolumeProfile (slice_last 200 prices) (slice_last 200 volumes) of
              None \<Rightarrow> None
            | Some volumeProfile \<Rightarrow>
                (let trendStrength = js_or (profileStrength volumeProfile) (Fin 0.5)
                 in Some (Inr
                      \<lparr> ts_trend =
                          \<lparr> primary = str_or primaryTrend ''neutral'',
                            secondary = str_or secondaryTrend ''neutral'',
                            trend_strength = toFixed2 trendStrength \<rparr>,
                        ts_momentum =
                          \<lparr> rsi_reading =
                              \<lparr> reading_value = toFixed2 rsiValue,
                                reading_signal = interpretRSI rsiValue \<rparr>,
                            macd_reading =
                              \<lparr> reading_value = toFixed2 macdValue,
                                reading_signal =
                                  interpretMACD macdValue macdSignal macdHistogram \<rparr>,
                            stochRSI_reading =
                              \<lparr> reading_value = toFixed2 stochRSI,
                                reading_signal = interpretStochRSI stochRSI \<rparr> \<rparr>,
                        ts_volatility =
                          \<lparr> vol_current = toFixed2 volatilityValue,
                            vol_trend = determineVolatilityTrend (slice_last 100 prices),
                            vol_risk = categorizeVolatilityRisk volatilityValue \<rparr>,
                        ts_volume =
                          \<lparr> volume_change = toFixed2 volumeChange,
                            volume_trend = determineVolumeTrend (slice_last 100 volumes),
                            volume_significance =
                              (if jgt (profileStrength volumeProfile) (Fin 0.7) then ''strong''
                               else if jgt (profileStrength volumeProfile) (Fin 0.4)
                                    then ''moderate''
                               else ''weak'') \<rparr> \<rparr>))))"

section \<open>Sentiment and risk\<close>

text \<open>
  The records of the data provider. A sentiment entry without a number reads as NaN and
  one without a label as the empty string: both are falsy, as \<^verbatim>\<open>undefined\<close> is. The
  result of \<^verbatim>\<open>getSentiment\<close> may be absent altogether (\<open>None\<close>).
\<close>

record NewsItem =
  title :: string
  item_sentiment :: string

record SentimentEntry =
  entry_volume :: jsnum
  entry_sentiment :: string

text \<open>\<^verbatim>\<open>sentiment?.[0]?.volume || 50\<close> and \<^verbatim>\<open>sentiment?.[0]?.sentiment || 'neutral'\<close>.\<close>

definition firstVolumeOr50 :: "SentimentEntry list option \<Rightarrow> jsnum" where
  "firstVolumeOr50 sentiment =
     (case sentiment of None \<Rightarrow> Fin 50
      | Some [] \<Rightarrow> Fin 50
      | Some (e # es) \<Rightarrow> js_or (entry_volume e) (Fin 50))"

definition firstSentimentOrNeutral :: "SentimentEntry list option \<Rightarrow> string" where
  "firstSentimentOrNeutral sentiment =
     (case sentiment of None \<Rightarrow> ''neutral''
      | Some [] \<Rightarrow> ''neutral''
      | Some (e # es) \<Rightarrow> str_or (entry_sentiment e) ''neutral'')"

definition calculateNewsScore :: "NewsItem list \<Rightarrow> jsnum" where
  "calculateNewsScore news =
     (if news = [] then Fin 50
      else let positiveCount = length (filter (\<lambda>n. item_sentiment n = ''positive'') news);
               negativeCount = length (filter (\<lambda>n. item_sentiment n = ''negative'') news)
           in (Fin (real positiveCount - real negativeCount) / Fin (real (length news)) + Fin 1)
                * Fin 50)"

text \<open>\<^verbatim>\<open>sentiment[0]\<close> without the optional chain throws when \<^verbatim>\<open>sentiment\<close> is absent.\<close>

definition calculateSentimentScore ::
  "NewsItem list \<Rightarrow> SentimentEntry list option \<Rightarrow> string + jsnum" where
  "calculateSentimentScore news sentiment =
     (if news = [] then Inr (Fin 50)
      else case sentiment of
             None \<Rightarrow> Inl ''TypeError''
           | Some es \<Rightarrow>
               (let newsScore = calculateNewsScore news;
                    sentimentScore = firstVolumeOr50 (Some es)
                in Inr ((newsScore + sentimentScore) / Fin 2)))"

definition determineSentimentSignal :: "SentimentEntry list option \<Rightarrow> string + string" where
  "determineSentimentSignal sentiment =
     (case sentiment of
        None \<Rightarrow> Inl ''TypeError''
      | Some es \<Rightarrow>
          (let score = firstVolumeOr50 (Some es)
           in Inr (if jgt score (Fin 60) then ''bullish''
                   else if jlt score (Fin 40) then ''bearish''
                   else ''neutral'')))"

definition calculateNewsTrend :: "NewsItem list \<Rightarrow> string" where
  "calculateNewsTrend news =
     (if news = [] then ''neutral''
      else let recentNews = take 5 news;
               positiveCount = Fin (real (length (filter (\<lambda>n. item_sentiment n = ''positive'') recentNews)));
               negativeCount = Fin (real (length (filter (\<lambda>n. item_sentiment n = ''negative'') recentNews)))
           in if jgt positiveCount (negativeCount * Fin 1.5) then ''bullish''
              else if jgt negativeCount (positiveCount * Fin 1.5) then ''bearish''
              else ''neutral'')"

definition calculateFundamentalRisk :: "jsnum list \<Rightarrow> jsnum list \<Rightarrow> jsnum" where
  "calculateFundamentalRisk prices volumes =
     (let volatilityValue = calculateVolatility prices;
          volumeChange = js_at volumes (int (length volumes) - 1)
                           / js_at volumes (int (length volumes) - 2);
          priceChange = (js_at prices (int (length prices) - 1)
                           - js_at prices (int (length prices) - 2))
                          / js_at prices (int (length prices) - 2);
          riskScore = (volatilityValue * Fin 0.4)
                        + (abs (volumeChange - Fin 1) * Fin 30)
                        + (abs priceChange * Fin 30)
      in jmin (Fin 100) (jmax (Fin 0) riskScore))"

definition calculateMarketRisk :: "jsnum list \<Rightarrow> jsnum list \<Rightarrow> jsnum" where
  "calculateMarketRisk prices volumes =
     (let trendStrength = abs ((js_at prices (int (length prices) - 1)
                                  - js_at prices (int (length prices) - 20))
                                 / js_at prices (int (length prices) - 20));
          volumeTrend = js_at volumes (int (length volumes) - 1)
                          / (js_sum (slice_last 20 volumes) / Fin 20);
          riskScore = (Fin 50 - trendStrength * Fin 100) * Fin 0.6
                        + (abs (volumeTrend - Fin 1) * Fin 40)
      in jmin (Fin 100) (jmax (Fin 0) riskScore))"

section \<open>Risk warnings\<close>

definition generateRiskWarnings :: "jsnum \<Rightarrow> jsnum \<Rightarrow> jsnum \<Rightarrow> string list" where
  "generateRiskWarnings volatility trendStrength volumeRatio =
     (let warnings = (if jgt volatility (Fin 50) then [''High market volatility''] else [])
                   @ (if jlt trendStrength (Fin 0.3) then [''Weak market trend''] else [])
                   @ (if jgt volumeRatio (Fin 2) then [''Unusual trading volume''] else [])
      in if warnings \<noteq> [] then warnings else [''No significant risks detected''])"

record RiskFactors =
  technical :: jsnum
  fundamental :: jsnum
  sentiment_risk :: jsnum
  market_risk :: jsnum

record RiskAnalysis =
  overall_risk :: jsnum
  factors :: RiskFactors
  warnings :: "string list"

definition analyzeRisk ::
  "jsnum list \<Rightarrow> jsnum list \<Rightarrow> jsnum \<Rightarrow> jsnum \<Rightarrow> NewsItem list \<Rightarrow> SentimentEntry list option
     \<Rightarrow> string + RiskAnalysis" where
  "analyzeRisk prices volumes volatilityValue trendStrength news sentiment =
     (let technicalRisk = volatilityValue * Fin 0.7 + (Fin 1 - abs trendStrength) * Fin 30
      in case calculateSentimentScore news sentiment of
           Inl e \<Rightarrow> Inl e
         | Inr score \<Rightarrow>
             (let sentimentRisk = Fin 100 - score;
                  fundamentalRisk = calculateFundamentalRisk prices volumes;
                  marketRisk = calculateMarketRisk prices volumes
              in Inr \<lparr> overall_risk =
                         (technicalRisk + sentimentRisk + fundamentalRisk + marketRisk) / Fin 4,
                       factors = \<lparr> technical = technicalRisk,
                                   fundamental = fundamentalRisk,
                                   sentiment_risk = sentimentRisk,
                                   market_risk = marketRisk \<rparr>,
                       warnings = generateRiskWarnings volatilityValue trendStrength
                                    (js_at volumes (int (length volumes) - 1)
                                       / js_at volumes (int (length volumes) - 2)) \<rparr>))"

section \<open>The full analysis\<close>

record SentimentOverall =
  score :: jsnum
  overall_signal :: string
  overall_confidence :: jsnum

record NewsComponent =
  news_score :: jsnum
  recent :: "string list"
  news_trend :: string

record SocialComponent =
  social_score :: jsnum
  social_trend :: string
  social_volume :: jsnum

record MarketComponent =
  market_score :: jsnum
  dominance :: jsnum
  flow :: string

record SentimentComponents =
  news_component :: NewsComponent
  social_component :: SocialComponent
  market_component :: MarketComponent

record SentimentAnalysis =
  overall :: SentimentOverall
  components :: SentimentComponents

record Entries =
  conservative :: jsnum
  moderate :: jsnum
  aggressive :: jsnum

record StopLoss =
  tight :: jsnum
  normal_stop :: jsnum
  wide :: jsnum

record Targets =
  primary_target :: jsnum
  secondary_target :: jsnum
  final_target :: jsnum

record TradingStrategy =
  recommendation :: string
  strategy_confidence :: jsnum
  entries :: Entries
  stopLoss :: StopLoss
  targets :: Targets
  timeframe :: string
  rationale :: "string list"

record AdvancedAnalysis =
  marketCondition :: MarketCondition
  technicalSignals :: TechnicalSignals
  sentimentAnalysis :: SentimentAnalysis
  predictions :: Predictions
  riskAnalysis :: RiskAnalysis
  tradingStrategy :: TradingStrategy

text \<open>What the strategy generator receives.\<close>

record StrategyInput =
  si_currentPrice :: jsnum
  si_marketCondition :: MarketCondition
  si_technicalSignals :: TechnicalSignals
  si_sentimentAnalysis :: jsnum
  si_riskAnalysis :: RiskAnalysis
  si_predictions :: Predictions

text \<open>
  The external collaborators: the data provider, the trend model, the strategy generator,
  and the printing of a number. A call that rejects returns \<open>Inl\<close>; an absent result or an
  absent optional field is \<open>None\<close>.
\<close>

record HistoricalData =
  h_prices :: "jsnum list option"
  h_volumes :: "jsnum list option"
  h_current_price :: "jsnum option"
  h_market_cap :: "jsnum option"
  h_price_change_24h :: "jsnum option"

record Services =
  getHistoricalData :: "string \<Rightarrow> string + HistoricalData option"
  getSentiment :: "string \<Rightarrow> string + SentimentEntry list option"
  getNews :: "string \<Rightarrow> string + NewsItem list option"
  trendModel :: trend_model
  generateStrategy :: "StrategyInput \<Rightarrow> string + TradingStrategy"
  numToString :: "jsnum \<Rightarrow> string"

text \<open>
  \<^verbatim>\<open>getDefaultAnalysis\<close>. The market condition is the first member of the object
  literal: when \<^verbatim>\<open>getDefaultMarketPhase\<close> throws, so does this function (\<open>Inl\<close>).
\<close>

definition getDefaultAnalysis :: "string \<Rightarrow> string + AdvancedAnalysis" where
  "getDefaultAnalysis crypto =
     (let defaultPrice = Fin 76000
      in case getDefaultMarketPhase defaultPrice crypto of
           Inl e \<Rightarrow> Inl e
         | Inr condition \<Rightarrow> Inr
         \<lparr> marketCondition = condition,
           technicalSignals =
             \<lparr> ts_trend = \<lparr> primary = ''neutral'', secondary = ''neutral'',
                            trend_strength = Fin 0.5 \<rparr>,
               ts_momentum =
                 \<lparr> rsi_reading = \<lparr> reading_value = Fin 50, reading_signal = ''neutral'' \<rparr>,
                   macd_reading = \<lparr> reading_value = Fin 0, reading_signal = ''neutral'' \<rparr>,
                   stochRSI_reading = \<lparr> reading_value = Fin 50, reading_signal = ''neutral'' \<rparr> \<rparr>,
               ts_volatility = \<lparr> vol_current = Fin 30, vol_trend = ''stable'', vol_risk = ''low'' \<rparr>,
               ts_volume = \<lparr> volume_change = Fin 1, volume_trend = ''neutral'',
                             volume_significance = ''moderate'' \<rparr> \<rparr>,
           sentimentAnalysis =
             \<lparr> overall = \<lparr> score = Fin 50, overall_signal = ''neutral'',
                           overall_confidence = Fin 50 \<rparr>,
               components =
                 \<lparr> news_component = \<lparr> news_score = Fin 50, recent = [], news_trend = ''neutral'' \<rparr>,
                   social_component = \<lparr> social_score = Fin 50, social_trend = ''neutral'',
                                        social_volume = Fin 1 \<rparr>,
                   market_component = \<lparr> market_score = Fin 50, dominance = Fin 50,
                                        flow = ''stable'' \<rparr> \<rparr> \<rparr>,
           predictions = getDefaultPredictions defaultPrice,
           riskAnalysis =
             \<lparr> overall_risk = Fin 50,
               factors = \<lparr> technical = Fin 50, fundamental = Fin 50, sentiment_risk = Fin 50,
                           market_risk = Fin 50 \<rparr>,
               warnings = [''Using default analysis due to data unavailability''] \<rparr>,
           tradingStrategy =
             \<lparr> recommendation = ''Hold'',
               strategy_confidence = Fin 50,
               entries = \<lparr> conservative = defaultPrice * Fin 0.98, moderate = defaultPrice,
                           aggressive = defaultPrice * Fin 1.02 \<rparr>,
               stopLoss = \<lparr> tight = defaultPrice * Fin 0.95, normal_stop = defaultPrice * Fin 0.93,
                            wide = defaultPrice * Fin 0.90 \<rparr>,
               targets = \<lparr> primary_target = defaultPrice * Fin 1.05,
                           secondary_target = defaultPrice * Fin 1.10,
                           final_target = defaultPrice * Fin 1.15 \<rparr>,
               timeframe = ''Medium-term'',
               rationale = [''Using default analysis due to data unavailability''] \<rparr> \<rparr>)"

text \<open>
  The part of the \<^verbatim>\<open>try\<close> block of \<^verbatim>\<open>getFullAnalysis\<close> that follows the technical
  signals: \<open>Inl\<close> is an exception on its way to the \<^verbatim>\<open>catch\<close>.
\<close>

definition assembleAnalysis ::
  "Services \<Rightarrow> string \<Rightarrow> jsnum list \<Rightarrow> jsnum list \<Rightarrow> jsnum \<Rightarrow> TechnicalSignals
     \<Rightarrow> string + AdvancedAnalysis" where
  "assembleAnalysis sv crypto prices volumes current_price techSignals =
     (case calculateMarketPhase (trendModel sv) prices volumes crypto of
        Inl e \<Rightarrow> Inl e
      | Inr condition \<Rightarrow>
       (case getSentiment sv crypto of
           Inl e \<Rightarrow> Inl e
         | Inr sentiment \<Rightarrow>
       (case getNews sv crypto of
           Inl e \<Rightarrow> Inl e
         | Inr newsData \<Rightarrow>
       (let news = (case newsData of None \<Rightarrow> [] | Some n \<Rightarrow> n);
            predicted = predictPriceTargets
                          \<lparr> pd_prices = prices, pd_volumes = volumes,
                            pd_currentPrice = current_price,
                            pd_volatility = vol_current (ts_volatility techSignals),
                            pd_sentiment = firstVolumeOr50 sentiment \<rparr>
        in case analyzeRisk prices volumes (vol_current (ts_volatility techSignals))
                  (trend_strength (ts_trend techSignals)) news sentiment of
             Inl e \<Rightarrow> Inl e
           | Inr risk \<Rightarrow>
         (case calculateSentimentScore news sentiment of
             Inl e \<Rightarrow> Inl e
           | Inr sentimentScore \<Rightarrow>
         (case determineSentimentSignal sentiment of
             Inl e \<Rightarrow> Inl e
           | Inr sentimentSignal \<Rightarrow>
         (case generateStrategy sv
                 \<lparr> si_currentPrice = current_price,
                   si_marketCondition = condition,
                   si_technicalSignals = techSignals,
                   si_sentimentAnalysis = sentimentScore,
                   si_riskAnalysis = risk,
                   si_predictions = predicted \<rparr> of
             Inl e \<Rightarrow> Inl e
           | Inr strategy \<Rightarrow>
               Inr \<lparr> marketCondition = condition,
                     technicalSignals = techSignals,
                     sentimentAnalysis =
                       \<lparr> overall =
                           \<lparr> score = sentimentScore,
                             overall_signal = sentimentSignal,
                             overall_confidence =
                               calculateConfidence
                                 [trend_strength (ts_trend techSignals) * Fin 100,
                                  calculateNewsScore news] \<rparr>,
                         components =
                           \<lparr> news_component =
                               \<lparr> news_score = calculateNewsScore news,
                                 recent = map title (take 3 news),
                                 news_trend = calculateNewsTrend news \<rparr>,
                             social_component =
                               \<lparr> social_score = firstVolumeOr50 sentiment,
                                 social_trend = firstSentimentOrNeutral sentiment,
                                 social_volume = volume_change (ts_volume techSignals) \<rparr>,
                             market_component =
                               \<lparr> market_score =
                                   (reading_value (rsi_reading (ts_momentum techSignals))
                                      + (if jgt (reading_value (macd_reading (ts_momentum techSignals)))
                                                (Fin 0)
                                         then Fin 60 else Fin 40)) / Fin 2,
                                 dominance = trend_strength (ts_trend techSignals) * Fin 100,
                                 flow = (if jgt (volume_change (ts_volume techSignals)) (Fin 1)
                                         then ''inflow'' else ''outflow'') \<rparr> \<rparr> \<rparr>,
                     predictions = predicted,
                     riskAnalysis = risk,
                     tradingStrategy = strategy \<rparr>)))))))"

text \<open>
  \<^verbatim>\<open>getFullAnalysis\<close>. Every exception of the \<^verbatim>\<open>try\<close> block ends in the
  \<^verbatim>\<open>catch\<close>, which returns what \<^verbatim>\<open>getDefaultAnalysis\<close> returns. When
  \<^verbatim>\<open>getDefaultAnalysis\<close> throws, inside the \<^verbatim>\<open>try\<close> block or in the \<^verbatim>\<open>catch\<close>, the
  promise is rejected: \<open>Some (Inl e)\<close>. \<open>None\<close> means that the call does not return.
\<close>

definition getFullAnalysis :: "Services \<Rightarrow> string \<Rightarrow> (string + AdvancedAnalysis) option" where
  "getFullAnalysis sv crypto =
     (case getHistoricalData sv crypto of
        Inl e \<Rightarrow> Some (getDefaultAnalysis crypto)
      | Inr None \<Rightarrow> Some (getDefaultAnalysis crypto)
      | Inr (Some historicalData) \<Rightarrow>
          (case h_prices historicalData of
             None \<Rightarrow> Some (getDefaultAnalysis crypto)
           | Some prices \<Rightarrow>
               if length prices = 0 \<or> length prices < 20 then Some (getDefaultAnalysis crypto)
               else
                 (let volumes = (case h_volumes historicalData of
                                   Some vs \<Rightarrow> vs
                                 | None \<Rightarrow> replicate (length prices) (Fin 0));
                      current_price = js_or (num_of (h_current_price historicalData))
                                        (js_at prices (int (length prices) - 1))
                  in if \<not> truthy current_price \<or> length prices = 0
                     then Some (getDefaultAnalysis crypto)
                     else case calculateTechnicalSignals (numToString sv) prices volumes of
                            None \<Rightarrow> None
                          | Some (Inl e) \<Rightarrow> Some (getDefaultAnalysis crypto)
                          | Some (Inr techSignals) \<Rightarrow>
                              (case assembleAnalysis sv crypto prices volumes current_price
                                      techSignals of
                                 Inl e \<Rightarrow> Some (getDefaultAnalysis crypto)
                               | Inr analysis \<Rightarrow> Some (Inr analysis)))))"

section \<open>Scenarios\<close>

text \<open>The series and the collaborators of the scenarios: a series rising from 1 to 200,
  and a trend model that answers with a fixed scalar.\<close>

definition rising200 :: "jsnum list" where
  "rising200 = map (\<lambda>i. Fin (real i)) [1..<201]"

definition constModel :: "jsnum \<Rightarrow> trend_model" where
  "constModel t features = Inr t"

text \<open>A strategy that recommends to hold, around a price of 100.\<close>

definition holdStrategy :: TradingStrategy where
  "holdStrategy =
     \<lparr> recommendation = ''Hold'',
       strategy_confidence = Fin 50,
       entries = \<lparr> conservative = Fin 98, moderate = Fin 100, aggressive = Fin 102 \<rparr>,
       stopLoss = \<lparr> tight = Fin 95, normal_stop = Fin 93, wide = Fin 90 \<rparr>,
       targets = \<lparr> primary_target = Fin 105, secondary_target = Fin 110,
                   final_target = Fin 115 \<rparr>,
       timeframe = ''Medium-term'',
       rationale = [] \<rparr>"

text \<open>
  Collaborators that all answer, around a given snapshot of prices and volumes: no
  sentiment entries, no news, a trend strength of \<open>0.5\<close>, and a strategy generator that
  recommends to hold. The printing of numbers is a placeholder: only the label of the
  primary trend depends on it.
\<close>

definition servicesWith :: "jsnum list \<Rightarrow> jsnum list \<Rightarrow> Services" where
  "servicesWith prices volumes =
     \<lparr> getHistoricalData =
         (\<lambda>crypto. Inr (Some \<lparr> h_prices = Some prices,
                                h_volumes = Some volumes,
                                h_current_price = None,
                                h_market_cap = None,
                                h_price_change_24h = None \<rparr>)),
       getSentiment = (\<lambda>crypto. Inr (Some [])),
       getNews = (\<lambda>crypto. Inr (Some [])),
       trendModel = constModel (Fin 0.5),
       generateStrategy = (\<lambda>input. Inr holdStrategy),
       numToString = (\<lambda>x. ''0'') \<rparr>"


section \<open>Properties\<close>

subsection \<open>Rounding to two decimals\<close>

lemma round2_nonneg: "0 \<le> a \<Longrightarrow> 0 \<le> round2 a"
  by (simp add: round2_def)

lemma round2_small: "0 \<le> a \<Longrightarrow> a < 10 ^ 21 \<Longrightarrow> round2 a = of_int \<lfloor>a * 100 + 1 / 2\<rfloor> / 100"
  by (simp add: round2_def)

lemma round2_le_cap:
  assumes "0 \<le> a" "a < 10 ^ 21" shows "round2 a \<le> 10 ^ 21"
proof -
  have "a * 100 + 1 / 2 < of_int (10 ^ 23 + 1)" using assms by simp
  then have "\<lfloor>a * 100 + 1 / 2\<rfloor> < 10 ^ 23 + 1" by (simp only: floor_less_iff)
  then have "\<lfloor>a * 100 + 1 / 2\<rfloor> \<le> 10 ^ 23" by simp
  then have "(of_int \<lfloor>a * 100 + 1 / 2\<rfloor> :: real) \<le> of_int (10 ^ 23)" by (simp only: of_int_le_iff)
  then show ?thesis using assms by (simp add: round2_small)
qed

lemma round2_mono:
  assumes "0 \<le> a" "a \<le> b" shows "round2 a \<le> round2 b"
proof (cases "b < 10 ^ 21")
  case True
  then have "\<lfloor>a * 100 + 1 / 2\<rfloor> \<le> \<lfloor>b * 100 + 1 / 2\<rfloor>" using assms by (intro floor_mono) simp
  then show ?thesis using True assms by (simp add: round2_small divide_right_mono)
next
  case False
  then have b: "round2 b = b" using assms by (simp add: round2_def)
  show ?thesis
  proof (cases "a < 10 ^ 21")
    case True
    then show ?thesis using round2_le_cap[OF assms(1) True] False b by simp
  next
    case False
    then show ?thesis using assms b by (simp add: round2_def)
  qed
qed

lemma round2_idem:
  assumes "0 \<le> a" shows "round2 (round2 a) = round2 a"
proof (cases "a < 10 ^ 21")
  case True
  define k where "k = \<lfloor>a * 100 + 1 / 2\<rfloor>"
  have ra: "round2 a = of_int k / 100" using True assms by (simp add: round2_small k_def)
  have k0: "0 \<le> k" using assms by (simp add: k_def)
  show ?thesis
  proof (cases "round2 a < 10 ^ 21")
    case True
    have "\<lfloor>(of_int k / 100 :: real) * 100 + 1 / 2\<rfloor> = k" by simp
    then show ?thesis using True k0 ra by (simp add: round2_def)
  next
    case False
    then show ?thesis using round2_nonneg[OF assms] by (simp add: round2_def)
  qed
next
  case False
  then show ?thesis using assms by (simp add: round2_def)
qed

lemma round2_step:
  assumes "0 \<le> a" "a + 1 / 100 < 10 ^ 21" shows "round2 (a + 1 / 100) = round2 a + 1 / 100"
proof -
  have "(a + 1 / 100) * 100 + 1 / 2 = (a * 100 + 1 / 2) + of_int 1" by (simp add: algebra_simps)
  then have "\<lfloor>(a + 1 / 100) * 100 + 1 / 2\<rfloor> = \<lfloor>a * 100 + 1 / 2\<rfloor> + 1" by (simp only: floor_add_int)
  then show ?thesis using assms by (simp add: round2_small add_divide_distrib)
qed

lemma round2_upper: assumes "0 \<le> a" shows "round2 a \<le> a + 1 / 200"
proof (cases "a < 10 ^ 21")
  case True
  have "of_int \<lfloor>a * 100 + 1 / 2\<rfloor> \<le> a * 100 + 1 / 2" by (rule of_int_floor_le)
  then show ?thesis using True assms by (simp add: round2_small)
next
  case False then show ?thesis using assms by (simp add: round2_def)
qed

lemma round2_strict:
  assumes "1 \<le> s" shows "round2 s < round2 (s * 1.01)"
proof (cases "s * 1.01 < 10 ^ 21")
  case True
  have "round2 s + 1 / 100 = round2 (s + 1 / 100)" using assms True by (simp add: round2_step)
  also have "\<dots> \<le> round2 (s * 1.01)" using assms by (intro round2_mono) simp_all
  finally show ?thesis by simp
next
  case False
  then have "round2 (s * 1.01) = s * 1.01" using assms by (simp add: round2_def)
  moreover have "round2 s \<le> s + 1 / 200" using assms by (simp add: round2_upper)
  ultimately show ?thesis using assms by simp
qed

subsection \<open>Valid series, minima and maxima\<close>

lemma positive_finiteE: "positive_finite p \<Longrightarrow> \<exists>r. p = Fin r \<and> 0 < r"
  by (cases p) simp_all

lemma valid_series_map_Fin [simp]: "valid_series (map Fin rs) = (\<forall>r\<in>set rs. 0 < r)"
  by (simp add: valid_series_def list_all_iff)

lemma js_last_map_Fin: "rs \<noteq> [] \<Longrightarrow> js_last (map Fin rs) = Some (Fin (last rs))"
proof -
  assume a: "rs \<noteq> []"
  have "nat (int (length rs) - 1) = length rs - Suc 0" by linarith
  then show ?thesis using a by (simp add: js_last_def js_get_def last_conv_nth)
qed

lemma fold_jmin_Fin:
  "fold (\<lambda>x m. jmin m x) (map Fin rs) (Fin a) = Fin (fold min rs a)"
  by (induction rs arbitrary: a) (simp_all add: jmin_def min_def)

lemma fold_jmax_Fin:
  "fold (\<lambda>x m. jmax m x) (map Fin rs) (Fin a) = Fin (fold max rs a)"
  by (induction rs arbitrary: a) (simp_all add: jmax_def max_def)

lemma fold_min_props:
  "fold min rs (a::real) \<in> insert a (set rs) \<and> fold min rs a \<le> a \<and> (\<forall>r\<in>set rs. fold min rs a \<le> r)"
proof (induction rs arbitrary: a)
  case Nil
  then show ?case by simp
next
  case (Cons x xs)
  from Cons[of "min x a"] show ?case by (auto simp: min_def split: if_splits)
qed

lemma fold_max_props:
  "fold max rs (a::real) \<in> insert a (set rs) \<and> a \<le> fold max rs a \<and> (\<forall>r\<in>set rs. r \<le> fold max rs a)"
proof (induction rs arbitrary: a)
  case Nil
  then show ?case by simp
next
  case (Cons x xs)
  from Cons[of "max x a"] show ?case by (auto simp: max_def split: if_splits)
qed

lemma jmin_PInf_Fin: "jmin PInf (Fin a) = Fin a"
  by (simp add: jmin_def)

lemma jmax_NInf_Fin: "jmax NInf (Fin a) = Fin a"
  by (simp add: jmax_def)

lemma js_min_list_Fin:
  assumes "rs \<noteq> []"
  shows "\<exists>l. js_min_list (map Fin rs) = Fin l \<and> l \<in> set rs \<and> (\<forall>r\<in>set rs. l \<le> r)"
proof -
  obtain x xs where rs: "rs = x # xs" using assms by (cases rs) auto
  have "js_min_list (map Fin rs) = Fin (fold min xs x)"
    by (simp add: rs js_min_list_def jmin_PInf_Fin fold_jmin_Fin)
  then show ?thesis using fold_min_props[of xs x] by (auto simp: rs)
qed

lemma js_max_list_Fin:
  assumes "rs \<noteq> []"
  shows "\<exists>h. js_max_list (map Fin rs) = Fin h \<and> h \<in> set rs \<and> (\<forall>r\<in>set rs. r \<le> h)"
proof -
  obtain x xs where rs: "rs = x # xs" using assms by (cases rs) auto
  have "js_max_list (map Fin rs) = Fin (fold max xs x)"
    by (simp add: rs js_max_list_def jmax_NInf_Fin fold_jmax_Fin)
  then show ?thesis using fold_max_props[of xs x] by (auto simp: rs)
qed

lemma slice_last_map: "slice_last n (map f xs) = map f (slice_last n xs)"
  by (simp add: slice_last_def drop_map)

lemma slice_last_nonempty:
  assumes "xs \<noteq> []" "0 < n" shows "slice_last n xs \<noteq> []"
proof -
  have "length xs - n < length xs" using assms by (cases xs) auto
  then show ?thesis by (simp add: slice_last_def)
qed

lemma last_slice_last:
  assumes "xs \<noteq> []" "0 < n" shows "last (slice_last n xs) = last xs"
proof -
  have "length xs - n < length xs" using assms by (cases xs) auto
  then show ?thesis by (simp add: slice_last_def)
qed

lemma set_slice_last: "set (slice_last n xs) \<subseteq> set xs"
  by (simp add: slice_last_def set_drop_subset)

subsection \<open>Key levels\<close>

text \<open>The support and resistance levels when the moving averages read \<open>0\<close>.\<close>

lemma supportLevel_Fin:
  "0 < l \<Longrightarrow> 0 < c \<Longrightarrow> supportLevel (Fin l) (Fin 0) (Fin 0) (Fin c) = Fin (max l (c * 0.95))"
  by (simp add: supportLevel_def jmax_def jmin_def max_def)

lemma resistanceLevel_Fin:
  "0 < h \<Longrightarrow> 0 < c \<Longrightarrow> 0 < s \<Longrightarrow>
   resistanceLevel (Fin h) (Fin 0) (Fin 0) (Fin c) (Fin s) = Fin (s * 1.01)"
  by (simp add: resistanceLevel_def jmax_def jmin_def)

lemma round2_zero_bound:
  assumes "0 \<le> a" "round2 a = 0" shows "a < 1 / 200"
proof -
  have small: "a < 10 ^ 21" using assms by (auto simp: round2_def split: if_splits)
  then have "\<lfloor>a * 100 + 1 / 2\<rfloor> = 0" using assms by (simp add: round2_small)
  then have "a * 100 + 1 / 2 < 1" by (simp add: floor_eq_iff)
  then show ?thesis by simp
qed

lemma round2_nonzero_bound:
  assumes "0 \<le> a" "round2 a \<noteq> 0" shows "1 / 100 \<le> round2 a"
proof (cases "a < 10 ^ 21")
  case True
  then have r: "round2 a = of_int \<lfloor>a * 100 + 1 / 2\<rfloor> / 100" using assms by (simp add: round2_small)
  have "0 \<le> \<lfloor>a * 100 + 1 / 2\<rfloor>" using assms by simp
  moreover have "\<lfloor>a * 100 + 1 / 2\<rfloor> \<noteq> 0" using assms r by auto
  ultimately have "1 \<le> \<lfloor>a * 100 + 1 / 2\<rfloor>" by linarith
  then have "(1::real) \<le> of_int \<lfloor>a * 100 + 1 / 2\<rfloor>" by linarith
  then show ?thesis using r by simp
next
  case False
  then show ?thesis using assms by (simp add: round2_def)
qed

lemma round2_le_one_cent:
  assumes "0 \<le> a" "a < 3 / 200" shows "round2 a \<le> 1 / 100"
proof -
  have "a * 100 + 1 / 2 < of_int 2" using assms by simp
  then have "\<lfloor>a * 100 + 1 / 2\<rfloor> < 2" by (simp only: floor_less_iff)
  then have "(of_int \<lfloor>a * 100 + 1 / 2\<rfloor> :: real) \<le> 1" by linarith
  moreover have "a < 10 ^ 21" using assms by simp
  ultimately show ?thesis using assms by (simp add: round2_small)
qed

lemma validatedKeyLevels_valid:
  assumes s: "0 < s" "s \<le> c" "c * 0.95 \<le> s"
  shows "\<exists>R SR. validatedKeyLevels (Fin c) (Fin s) (Fin (s * 1.01))
            = \<lparr> strongSupport = Fin (round2 (s * 0.99)), support = Fin (round2 s),
                pivot = Fin (round2 c), resistance = Fin R, strongResistance = Fin SR \<rparr>
          \<and> round2 (s * 0.99) \<le> round2 s \<and> round2 s \<le> round2 c
          \<and> round2 s \<le> R \<and> R \<le> SR \<and> (1 \<le> s \<longrightarrow> round2 s < R)"
proof -
  define R0 where "R0 = round2 (s * 1.01)"
  define SR0 where "SR0 = round2 (s * 1.01 * 1.01)"
  have c: "0 < c" using s by simp
  have m1: "round2 (s * 0.99) \<le> round2 s" using s by (intro round2_mono) simp_all
  have m2: "round2 s \<le> round2 c" using s by (intro round2_mono) simp_all
  have m3: "round2 s \<le> R0" unfolding R0_def using s by (intro round2_mono) simp_all
  have m4: "R0 \<le> SR0" unfolding R0_def SR0_def using s by (intro round2_mono) simp_all
  have n0: "0 \<le> round2 s" using s by (simp add: round2_nonneg)
  show ?thesis
  proof (cases "R0 = 0")
    case False
    then have "SR0 \<noteq> 0" using m3 m4 n0 by linarith
    then have "validatedKeyLevels (Fin c) (Fin s) (Fin (s * 1.01))
            = \<lparr> strongSupport = Fin (round2 (s * 0.99)), support = Fin (round2 s),
                pivot = Fin (round2 c), resistance = Fin R0, strongResistance = Fin SR0 \<rparr>"
      using False by (simp add: validatedKeyLevels_def Let_def isNaN_def R0_def SR0_def)
    moreover have "1 \<le> s \<longrightarrow> round2 s < R0" unfolding R0_def using round2_strict by blast
    ultimately show ?thesis using m1 m2 m3 m4 by blast
  next
    case True
    define R where "R = round2 (c * 1.05)"
    have Rn: "0 \<le> R" unfolding R_def using c by (intro round2_nonneg) simp
    have s0: "round2 s = 0" using True m3 n0 by linarith
    have sb: "s * 1.01 < 1 / 200" using True s by (intro round2_zero_bound) (simp_all add: R0_def)
    have not1: "\<not> 1 \<le> s" using sb s by simp
    show ?thesis
    proof (cases "SR0 = 0")
      case False
      have eq: "validatedKeyLevels (Fin c) (Fin s) (Fin (s * 1.01))
            = \<lparr> strongSupport = Fin (round2 (s * 0.99)), support = Fin (round2 s),
                pivot = Fin (round2 c), resistance = Fin R, strongResistance = Fin SR0 \<rparr>"
        using True False by (simp add: validatedKeyLevels_def Let_def isNaN_def R0_def SR0_def R_def)
      have "c * 1.05 < 3 / 200" using sb s by simp
      then have "R \<le> 1 / 100" unfolding R_def using c by (intro round2_le_one_cent) simp_all
      moreover have "1 / 100 \<le> SR0" unfolding SR0_def using s False
        by (intro round2_nonzero_bound) (simp_all add: SR0_def)
      ultimately have "R \<le> SR0" by simp
      then show ?thesis using eq m1 m2 s0 Rn not1 by auto
    next
      case SR: True
      define SR where "SR = round2 (R * 1.01)"
      have eq: "validatedKeyLevels (Fin c) (Fin s) (Fin (s * 1.01))
            = \<lparr> strongSupport = Fin (round2 (s * 0.99)), support = Fin (round2 s),
                pivot = Fin (round2 c), resistance = Fin R, strongResistance = Fin SR \<rparr>"
        using True SR by (simp add: validatedKeyLevels_def Let_def isNaN_def R0_def SR0_def R_def SR_def)
      have "round2 R = R" unfolding R_def using c by (intro round2_idem) simp
      moreover have "round2 R \<le> SR" unfolding SR_def using Rn by (intro round2_mono) simp_all
      ultimately have "R \<le> SR" by simp
      then show ?thesis using eq m1 m2 s0 Rn not1 by auto
    qed
  qed
qed

subsection \<open>Moving averages and the market phase\<close>

lemma calculateSMA_hd:
  "prices \<noteq> [] \<Longrightarrow> 2 \<le> period \<Longrightarrow> hd (calculateSMA prices period) = Fin 0"
  by (simp add: calculateSMA_def hd_map)

lemma valid_series_reals: "valid_series ps \<Longrightarrow> \<exists>rs. ps = map Fin rs \<and> (\<forall>r\<in>set rs. 0 < r)"
proof (induction ps)
  case Nil
  then show ?case by simp
next
  case (Cons p ps)
  then obtain rs where rs: "ps = map Fin rs" "\<forall>r\<in>set rs. 0 < r" by (auto simp: valid_series_def)
  from Cons.prems obtain r where "p = Fin r" "0 < r" using positive_finiteE by (auto simp: valid_series_def)
  then show ?case using rs by (intro exI[of _ "r # rs"]) simp
qed


lemma defaultRanges_cases:
  assumes "defaultRanges k = OwnRange a b"
  shows "\<exists>x y. a = Fin x \<and> b = Fin y \<and> 0 < x \<and> x + 1 / 100 \<le> y"
proof -
  have "(a, b) \<in> {(Fin 65000, Fin 70000), (Fin 2300, Fin 2500), (Fin 280, Fin 320),
                    (Fin 0.45, Fin 0.55), (Fin 90, Fin 110)}"
    using assms by (simp add: defaultRanges_def split: if_splits)
  then consider "a = Fin 65000 \<and> b = Fin 70000" | "a = Fin 2300 \<and> b = Fin 2500"
    | "a = Fin 280 \<and> b = Fin 320" | "a = Fin 0.45 \<and> b = Fin 0.55" | "a = Fin 90 \<and> b = Fin 110"
    by auto
  then show ?thesis
  proof cases
    case 1 then show ?thesis by (intro exI[of _ 65000] exI[of _ 70000]) simp
  next
    case 2 then show ?thesis by (intro exI[of _ 2300] exI[of _ 2500]) simp
  next
    case 3 then show ?thesis by (intro exI[of _ 280] exI[of _ 320]) simp
  next
    case 4 then show ?thesis by (intro exI[of _ "0.45"] exI[of _ "0.55"]) simp
  next
    case 5 then show ?thesis by (intro exI[of _ 90] exI[of _ 110]) simp
  qed
qed

lemma getDefaultMarketPhase_throws:
  "(\<exists>e. getDefaultMarketPhase cp crypto = Inl e)
     = (defaultRanges (toLowerCase crypto) = InheritedMember)"
  by (simp add: getDefaultMarketPhase_def split: range_entry.splits)

lemma getDefaultMarketPhase_returns:
  "(\<exists>mc. getDefaultMarketPhase cp crypto = Inr mc)
     = (defaultRanges (toLowerCase crypto) \<noteq> InheritedMember)"
  by (simp add: getDefaultMarketPhase_def split: range_entry.splits)

lemma getDefaultMarketPhase_levels:
  assumes "0 < c" "getDefaultMarketPhase (Fin c) crypto = Inr mc"
  shows "\<exists>x y. keyLevels mc =
           \<lparr> strongSupport = Fin (round2 (x * 0.98)), support = Fin (round2 x),
             pivot = Fin (round2 c), resistance = Fin (round2 y),
             strongResistance = Fin (round2 (y * 1.02)) \<rparr>
         \<and> 0 < x \<and> x \<le> y \<and> (1 \<le> c \<longrightarrow> x + 1 / 100 \<le> y)"
proof (cases "defaultRanges (toLowerCase crypto)")
  case NoEntry
  then have "keyLevels mc =
           \<lparr> strongSupport = Fin (round2 (c * 0.95 * 0.98)), support = Fin (round2 (c * 0.95)),
             pivot = Fin (round2 c), resistance = Fin (round2 (c * 1.05)),
             strongResistance = Fin (round2 (c * 1.05 * 1.02)) \<rparr>"
    using assms(2) by (auto simp add: getDefaultMarketPhase_def)
  moreover have "0 < c * 0.95" "c * 0.95 \<le> c * 1.05" "1 \<le> c \<longrightarrow> c * 0.95 + 1 / 100 \<le> c * 1.05"
    using assms(1) by simp_all
  ultimately show ?thesis by blast
next
  case InheritedMember
  then show ?thesis using assms(2) by (simp add: getDefaultMarketPhase_def)
next
  case (OwnRange a b)
  obtain x y where xy: "a = Fin x" "b = Fin y" "0 < x" "x + 1 / 100 \<le> y"
    using defaultRanges_cases OwnRange by blast
  have "keyLevels mc =
           \<lparr> strongSupport = Fin (round2 (x * 0.98)), support = Fin (round2 x),
             pivot = Fin (round2 c), resistance = Fin (round2 y),
             strongResistance = Fin (round2 (y * 1.02)) \<rparr>"
    using OwnRange xy assms(2) by (auto simp add: getDefaultMarketPhase_def)
  moreover have "x \<le> y" using xy by simp
  ultimately show ?thesis using xy by blast
qed

lemma marketPhase_valid:
  assumes pos: "\<forall>r\<in>set rs. 0 < r" and ne: "rs \<noteq> []"
    and ok: "analyzeTrendStrength model (map Fin rs) vs = Inr t"
  shows "\<exists>l x. l \<in> set (slice_last 20 rs) \<and> (\<forall>r\<in>set (slice_last 20 rs). l \<le> r)
           \<and> calculateMarketPhase model (map Fin rs) vs crypto =
               Inr \<lparr> phase = ''sideways'', strength = toFixed2 (abs t),
                 confidence = toFixed2 (calculateConfidence [abs t * Fin 100, Fin 60, Fin 60, Fin x]),
                 keyLevels = validatedKeyLevels (Fin (last rs)) (Fin (max l (last rs * 0.95)))
                               (Fin (max l (last rs * 0.95) * 1.01)) \<rparr>"
proof -
  let ?recent = "slice_last 20 rs"
  have rne: "?recent \<noteq> []" using ne by (simp add: slice_last_nonempty)
  obtain l where l: "js_min_list (map Fin ?recent) = Fin l" "l \<in> set ?recent" "\<forall>r\<in>set ?recent. l \<le> r"
    using js_min_list_Fin[OF rne] by blast
  obtain h where h: "js_max_list (map Fin ?recent) = Fin h" "h \<in> set ?recent"
    using js_max_list_Fin[OF rne] by blast
  have sub: "set ?recent \<subseteq> set rs" by (rule set_slice_last)
  have lp: "0 < l" and hp: "0 < h" using l(2) h(2) sub pos by auto
  have cp: "0 < last rs" using pos ne by simp
  define s where "s = max l (last rs * 0.95)"
  have sp: "0 < s" using lp by (simp add: s_def)
  have sl: "supportLevel (Fin l) (Fin 0) (Fin 0) (Fin (last rs)) = Fin s"
    using lp cp by (simp add: supportLevel_Fin s_def)
  have rl: "resistanceLevel (Fin h) (Fin 0) (Fin 0) (Fin (last rs)) (Fin s) = Fin (s * 1.01)"
    using hp cp sp by (simp add: resistanceLevel_Fin)
  have nz: "s * 1.01 - s \<noteq> 0" using sp by simp
  have "calculateMarketPhase model (map Fin rs) vs crypto =
               Inr \<lparr> phase = ''sideways'', strength = toFixed2 (abs t),
                 confidence = toFixed2 (calculateConfidence [abs t * Fin 100, Fin 60, Fin 60,
                    Fin ((last rs - s) / (s * 1.01 - s) * 100)]),
                 keyLevels = validatedKeyLevels (Fin (last rs)) (Fin s) (Fin (s * 1.01)) \<rparr>"
    unfolding calculateMarketPhase_def Let_def
    using ne ok cp nz
    by (simp add: js_last_map_Fin calculateSMA_hd slice_last_map l(1) h(1) sl rl jgt_def
        phaseLabel_def num_of_def minus_jsnum_def)
  then show ?thesis using l(2,3) unfolding s_def by blast
qed

lemma jle_Fin [simp]: "jle (Fin a) (Fin b) = (a \<le> b)"
  by (auto simp: jle_def)

lemma marketPhase_caught:
  assumes "analyzeTrendStrength model prices vs = Inl e"
  shows "calculateMarketPhase model prices vs crypto
           = getDefaultMarketPhase (js_or (num_of (js_last prices)) (Fin 0)) crypto"
  using assms by (simp add: calculateMarketPhase_def Let_def)

lemma marketPhase_caught_valid:
  assumes "analyzeTrendStrength model (map Fin rs) vs = Inl e" "rs \<noteq> []" "0 < last rs"
  shows "calculateMarketPhase model (map Fin rs) vs crypto
           = getDefaultMarketPhase (Fin (last rs)) crypto"
  using marketPhase_caught[OF assms(1)] assms(2,3)
  by (simp add: js_last_map_Fin num_of_def js_or_def truthy_def)

lemma calculateMarketPhase_returns:
  assumes "prices \<noteq> []"
    "(\<exists>t. analyzeTrendStrength model prices vs = Inr t)
       \<or> defaultRanges (toLowerCase crypto) \<noteq> InheritedMember"
  shows "\<exists>mc. calculateMarketPhase model prices vs crypto = Inr mc"
proof (cases "analyzeTrendStrength model prices vs")
  case (Inl e)
  then have "defaultRanges (toLowerCase crypto) \<noteq> InheritedMember" using assms(2) by auto
  then show ?thesis
    using marketPhase_caught[OF Inl, of crypto] getDefaultMarketPhase_returns by simp
next
  case (Inr t)
  have "js_last prices \<noteq> None" using assms(1) by (simp add: js_last_def js_get_def)
  then show ?thesis using Inr by (auto simp add: calculateMarketPhase_def Let_def)
qed

lemma calculateMarketPhase_throws:
  assumes "analyzeTrendStrength model prices vs = Inl e"
    "defaultRanges (toLowerCase crypto) = InheritedMember"
  shows "calculateMarketPhase model prices vs crypto = Inl ''TypeError''"
  using marketPhase_caught[OF assms(1), of crypto] assms(2)
  by (simp add: getDefaultMarketPhase_def)

lemma rising200_reals: "rising200 = map Fin (map real [1..<201])"
  by (simp add: rising200_def)

lemma valid_rising200: "valid_series rising200"
  by (simp add: rising200_def valid_series_def list_all_iff del: upt_Suc)

lemma analyze_constModel: "analyzeTrendStrength (constModel t) prices vs = Inr t"
  by (simp add: analyzeTrendStrength_def constModel_def Let_def)

subsection \<open>The relative strength index without losses\<close>

lemma js_at_map_Fin: "i < length rs \<Longrightarrow> js_at (map Fin rs) (int i) = Fin (rs ! i)"
  by (simp add: js_at_def js_get_def num_of_def)

lemma js_at_map_Fin_pred:
  assumes "0 < i" "i \<le> length rs" shows "js_at (map Fin rs) (int i - 1) = Fin (rs ! (i - 1))"
proof -
  have "int i - 1 = int (i - 1)" using assms by simp
  then show ?thesis using assms js_at_map_Fin[of "i - 1" rs] by simp
qed

lemma difference_nondecreasing:
  assumes "sorted rs" "0 < i" "i < length rs"
  shows "\<exists>d. js_at (map Fin rs) (int i) - js_at (map Fin rs) (int i - 1) = Fin d \<and> 0 \<le> d"
proof -
  have "rs ! (i - 1) \<le> rs ! i" using assms by (intro sorted_nth_mono) simp_all
  then show ?thesis using assms
    by (simp add: js_at_map_Fin js_at_map_Fin_pred minus_jsnum_def)
qed

lemma rsi_initial_fold_nondecreasing:
  assumes "sorted rs" "\<forall>i\<in>set is. 0 < i \<and> i < length rs"
  shows "\<exists>g'. fold (\<lambda>i (gains, losses).
             let difference = js_at (map Fin rs) (int i) - js_at (map Fin rs) (int i - 1)
             in if jge difference (Fin 0) then (gains + difference, losses)
                else (gains, losses - difference)) is (Fin g, Fin 0) = (Fin g', Fin 0)
            \<and> g \<le> g'"
  using assms(2)
proof (induction "is" arbitrary: g)
  case Nil
  then show ?case by simp
next
  case (Cons i "is")
  obtain d where d: "js_at (map Fin rs) (int i) - js_at (map Fin rs) (int i - 1) = Fin d" "0 \<le> d"
    using difference_nondecreasing[OF assms(1), of i] Cons.prems by auto
  from Cons.IH[of "g + d"] Cons.prems d show ?case by (fastforce simp add: jge_def jle_def)
qed

lemma wilder_fold_nondecreasing:
  assumes "sorted rs" "\<forall>i\<in>set is. 0 < i \<and> i < length rs" "0 < period"
  shows "\<exists>g'. fold (\<lambda>i avgs. wilder_step period
                          (js_at (map Fin rs) (int i) - js_at (map Fin rs) (int i - 1)) avgs)
             is (Fin g, Fin 0) = (Fin g', Fin 0)"
  using assms(2)
proof (induction "is" arbitrary: g)
  case Nil
  then show ?case by simp
next
  case (Cons i "is")
  obtain d where d: "js_at (map Fin rs) (int i) - js_at (map Fin rs) (int i - 1) = Fin d" "0 \<le> d"
    using difference_nondecreasing[OF assms(1), of i] Cons.prems by auto
  have "\<exists>a. wilder_step period (Fin d) (Fin g, Fin 0) = (Fin a, Fin 0)"
    using d(2) assms(3) by (simp add: wilder_step_def jmax_def)
  then obtain a where "wilder_step period (Fin d) (Fin g, Fin 0) = (Fin a, Fin 0)" by blast
  with Cons.IH[of a] Cons.prems d show ?case by simp
qed

lemma rsi_averages_nondecreasing:
  assumes "sorted rs" "0 < period" "period + 1 \<le> length rs"
  shows "\<exists>g. rsi_averages (map Fin rs) period = (Fin g, Fin 0)"
proof -
  have "\<forall>i\<in>set [1..<period + 1]. 0 < i \<and> i < length rs" using assms(3) by auto
  then obtain g0 where g0: "rsi_initial (map Fin rs) period = (Fin g0, Fin 0)"
    using rsi_initial_fold_nondecreasing[OF assms(1), of "[1..<period + 1]" 0]
    unfolding rsi_initial_def by blast
  have "\<forall>i\<in>set [period + 1..<length rs]. 0 < i \<and> i < length rs" by auto
  then obtain g where "fold (\<lambda>i avgs. wilder_step period
                          (js_at (map Fin rs) (int i) - js_at (map Fin rs) (int i - 1)) avgs)
             [period + 1..<length rs] (Fin (g0 / real period), Fin 0) = (Fin g, Fin 0)"
    using wilder_fold_nondecreasing[OF assms(1) _ assms(2)] by blast
  then show ?thesis using assms(2) by (simp add: rsi_averages_def g0)
qed

lemma calculateRSI_zero_loss:
  assumes "period + 1 \<le> length prices" "snd (rsi_averages prices period) = Fin 0"
  shows "calculateRSI prices period = Fin (100 - 100 / 101)"
proof -
  obtain g where "rsi_averages prices period = (g, Fin 0)" using assms(2) by (cases "rsi_averages prices period") simp
  then show ?thesis using assms(1) by (simp add: calculateRSI_def Let_def isNaN_def minus_jsnum_def)
qed


lemma sorted_rising: "sorted (map real [1..<201])"
  by (simp add: sorted_map del: upt_Suc)

subsection \<open>Degenerate divisions in the stochastic RSI and the ADX\<close>

lemma NaN_absorbs [simp]:
  "x + NaN = NaN" "NaN - x = NaN" "x - NaN = NaN" "x * NaN = NaN" "x / NaN = NaN"
  by (cases x; simp add: minus_jsnum_def)+

lemma js_at_replicate: "i < n \<Longrightarrow> js_at (replicate n x) (int i) = x"
  by (simp add: js_at_def js_get_def num_of_def)

lemma js_at_replicate_pred:
  assumes "0 < i" "i \<le> n" shows "js_at (replicate n x) (int i - 1) = x"
proof -
  have "int i - 1 = int (i - 1)" using assms by simp
  then show ?thesis using assms js_at_replicate[of "i - 1" n x] by simp
qed

lemma difference_constant:
  "0 < i \<Longrightarrow> i < n \<Longrightarrow>
   js_at (replicate n (Fin c)) (int i) - js_at (replicate n (Fin c)) (int i - 1) = Fin 0"
  by (simp add: js_at_replicate js_at_replicate_pred minus_jsnum_def)

lemma rsi_initial_constant:
  assumes "period < n"
  shows "rsi_initial (replicate n (Fin c)) period = (Fin 0, Fin 0)"
proof -
  have "\<forall>i\<in>set is. 0 < i \<and> i < n \<Longrightarrow>
        fold (\<lambda>i (gains, losses).
             let difference = js_at (replicate n (Fin c)) (int i) - js_at (replicate n (Fin c)) (int i - 1)
             in if jge difference (Fin 0) then (gains + difference, losses)
                else (gains, losses - difference)) is (Fin 0, Fin 0) = (Fin 0, Fin 0)" for "is"
    by (induction "is") (simp_all add: difference_constant jge_def jle_def)
  moreover have "\<forall>i\<in>set [1..<period + 1]. 0 < i \<and> i < n" using assms by auto
  ultimately show ?thesis unfolding rsi_initial_def by blast
qed

lemma rsi_array_fold_constant:
  assumes "0 < period" "\<forall>i\<in>set is. 0 < i \<and> i < n"
  shows "fold (\<lambda>i (avgs, rsiValues).
                     let avgs' = wilder_step period
                                   (js_at (replicate n (Fin c)) (int i) - js_at (replicate n (Fin c)) (int i - 1)) avgs;
                         rs = fst avgs' / snd avgs'
                     in (avgs', rsiValues @ [Fin 100 - Fin 100 / (Fin 1 + rs)]))
                  is ((Fin 0, Fin 0), vs) = ((Fin 0, Fin 0), vs @ replicate (length is) NaN)"
  using assms(2)
proof (induction "is" arbitrary: vs)
  case Nil
  then show ?case by simp
next
  case (Cons i "is")
  have w: "wilder_step period (Fin 0) (Fin 0, Fin 0) = (Fin 0, Fin 0)"
    using assms(1) by (simp add: wilder_step_def jmax_def)
  from Cons.IH[of "vs @ [NaN]"] Cons.prems show ?case
    by (simp add: difference_constant w replicate_append_same)
qed

lemma calculateRSIArray_constant:
  assumes "0 < period" "period < n"
  shows "calculateRSIArray (replicate n (Fin c)) period = replicate (n - (period + 1)) NaN"
proof -
  have "\<forall>i\<in>set [period + 1..<n]. 0 < i \<and> i < n" by auto
  from rsi_array_fold_constant[OF assms(1) this, of c "[]"] show ?thesis
    using assms by (simp add: calculateRSIArray_def rsi_initial_constant)
qed

lemma js_last_replicate_NaN: "num_of (js_last (replicate k NaN)) = NaN"
  by (simp add: js_last_def js_get_def num_of_def)

lemma calculateStochRSI_constant:
  assumes "0 < period" "period < n"
  shows "calculateStochRSI (replicate n (Fin c)) period = NaN"
  by (simp add: calculateStochRSI_def Let_def calculateRSIArray_constant[OF assms] js_last_replicate_NaN)

lemma js_sum_zeros: "\<forall>x\<in>set xs. x = Fin 0 \<Longrightarrow> js_sum xs = Fin 0"
proof -
  have "\<forall>x\<in>set xs. x = Fin 0 \<Longrightarrow> fold (\<lambda>x s. s + x) xs (Fin 0) = Fin 0"
    by (induction xs) simp_all
  then show "\<forall>x\<in>set xs. x = Fin 0 \<Longrightarrow> js_sum xs = Fin 0" by (simp add: js_sum_def)
qed

lemma calculateADX_constant:
  assumes "0 < period"
  shows "calculateADX (replicate n (Fin c)) period = NaN"
proof -
  let ?ps = "replicate n (Fin c)"
  have tr: "\<forall>x\<in>set (calculateTrueRange ?ps). x = Fin 0"
    by (auto simp: calculateTrueRange_def Let_def js_at_replicate js_at_replicate_pred
        minus_jsnum_def jmax_def)
  then have "\<forall>x\<in>set (slice_last period (calculateTrueRange ?ps)). x = Fin 0"
    using set_slice_last[of period "calculateTrueRange ?ps"] by blast
  then have atr: "js_sum (slice_last period (calculateTrueRange ?ps)) / Fin (real period) = Fin 0"
    using assms by (simp add: js_sum_zeros)
  have dm: "js_sum (map (\<lambda>i. jmax (Fin 0) (js_at ?ps (int i) - js_at ?ps (int i - 1)))
                     [Suc 0..<n]) = Fin 0"
    by (intro js_sum_zeros) (auto simp: js_at_replicate js_at_replicate_pred minus_jsnum_def jmax_def)
  show ?thesis
    using assms by (simp add: calculateADX_def Let_def atr dm)
qed

lemma jmin_NaN [simp]: "jmin NaN x = NaN" "jmin x NaN = NaN"
  by (simp_all add: jmin_def)

lemma fold_jmin_NaN: "fold (\<lambda>x m. jmin m x) vs NaN = NaN"
  by (induction vs) simp_all

lemma fold_jmin_has_NaN: "NaN \<in> set vs \<Longrightarrow> fold (\<lambda>x m. jmin m x) vs a = NaN"
  by (induction vs arbitrary: a) (auto simp: fold_jmin_NaN)

lemma stoch_degenerate:
  assumes "\<forall>v\<in>set vs. v = NaN \<or> v = Fin 100"
  shows "((num_of (js_last vs) - js_min_list vs) / (js_max_list vs - js_min_list vs)) * Fin 100 = NaN"
proof (cases "NaN \<in> set vs")
  case True
  then have "js_min_list vs = NaN" by (simp add: js_min_list_def fold_jmin_has_NaN)
  then show ?thesis by simp
next
  case False
  then have all: "\<forall>v\<in>set vs. v = Fin 100" using assms by auto
  show ?thesis
  proof (cases "vs = []")
    case True
    then show ?thesis by (simp add: js_last_def js_get_def num_of_def)
  next
    case ne: False
    define k where "k = length vs"
    have "replicate (length vs) (Fin 100) = vs" using all by (rule replicate_length_same)
    then have vs: "vs = map Fin (replicate k 100)" by (simp add: k_def)
    have ne': "replicate k (100::real) \<noteq> []" using ne vs by auto
    obtain l where "js_min_list (map Fin (replicate k 100)) = Fin l"
      "l \<in> set (replicate k (100::real))" using js_min_list_Fin[OF ne'] by blast
    then have mn: "js_min_list vs = Fin 100" unfolding vs by auto
    obtain h where "js_max_list (map Fin (replicate k 100)) = Fin h"
      "h \<in> set (replicate k (100::real))" using js_max_list_Fin[OF ne'] by blast
    then have mx: "js_max_list vs = Fin 100" unfolding vs by auto
    have "js_last (map Fin (replicate k 100)) = Some (Fin (last (replicate k 100)))"
      using ne' by (rule js_last_map_Fin)
    then have "js_last vs = Some (Fin 100)" unfolding vs using ne' by simp
    then show ?thesis by (simp add: mn mx num_of_def minus_jsnum_def)
  qed
qed

lemma rsi_array_fold_nondecreasing:
  assumes "sorted rs" "0 < period" "\<forall>i\<in>set is. 0 < i \<and> i < length rs"
    "\<forall>v\<in>set vs. v = NaN \<or> v = Fin 100" "0 \<le> g"
  shows "\<forall>v\<in>set (snd (fold (\<lambda>i (avgs, rsiValues).
                     let avgs' = wilder_step period
                                   (js_at (map Fin rs) (int i) - js_at (map Fin rs) (int i - 1)) avgs;
                         rs = fst avgs' / snd avgs'
                     in (avgs', rsiValues @ [Fin 100 - Fin 100 / (Fin 1 + rs)]))
                  is ((Fin g, Fin 0), vs))). v = NaN \<or> v = Fin 100"
  using assms(3,4,5)
proof (induction "is" arbitrary: g vs)
  case Nil
  then show ?case by simp
next
  case (Cons i "is")
  obtain d where d: "js_at (map Fin rs) (int i) - js_at (map Fin rs) (int i - 1) = Fin d" "0 \<le> d"
    using difference_nondecreasing[OF assms(1), of i] Cons.prems by auto
  define a where "a = (g * (real period - 1) + d) / real period"
  have a0: "0 \<le> a" using d(2) Cons.prems(3) assms(2) by (simp add: a_def)
  have w: "wilder_step period (Fin d) (Fin g, Fin 0) = (Fin a, Fin 0)"
    using d(2) assms(2) by (simp add: wilder_step_def jmax_def a_def)
  have v: "Fin 100 - Fin 100 / (Fin 1 + Fin a / Fin 0) = NaN \<or> Fin 100 - Fin 100 / (Fin 1 + Fin a / Fin 0) = Fin 100"
    using a0 by (simp add: minus_jsnum_def)
  have "\<forall>v\<in>set (vs @ [Fin 100 - Fin 100 / (Fin 1 + Fin a / Fin 0)]). v = NaN \<or> v = Fin 100"
    using Cons.prems(2) v by auto
  from Cons.IH[OF _ this a0] Cons.prems(1) show ?case by (simp add: d w)
qed

lemma calculateStochRSI_nondecreasing:
  assumes "sorted rs" "0 < period" "period + 1 \<le> length rs"
  shows "calculateStochRSI (map Fin rs) period = NaN"
proof -
  have "\<forall>i\<in>set [1..<period + 1]. 0 < i \<and> i < length rs" using assms(3) by auto
  then obtain g0 where g0: "rsi_initial (map Fin rs) period = (Fin g0, Fin 0)" "0 \<le> g0"
    using rsi_initial_fold_nondecreasing[OF assms(1), of "[1..<period + 1]" 0]
    unfolding rsi_initial_def by blast
  have "\<forall>i\<in>set [period + 1..<length rs]. 0 < i \<and> i < length rs" by auto
  from rsi_array_fold_nondecreasing[OF assms(1,2) this, of "[]" "g0 / real period"] g0(2) assms(2)
  have "\<forall>v\<in>set (calculateRSIArray (map Fin rs) period). v = NaN \<or> v = Fin 100"
    by (simp add: calculateRSIArray_def g0)
  then show ?thesis unfolding calculateStochRSI_def Let_def by (rule stoch_degenerate)
qed

subsection \<open>Price ranges of the predictions\<close>

lemma jmin_Fin [simp]: "jmin (Fin a) (Fin b) = Fin (min a b)"
  by (simp add: jmin_def min_def)

lemma jmax_Fin [simp]: "jmax (Fin a) (Fin b) = Fin (max a b)"
  by (simp add: jmax_def max_def)

lemma minus_Fin [simp]: "Fin a - Fin b = Fin (a - b)"
  by (simp add: minus_jsnum_def)


lemma js_at_map_Fin_last:
  assumes "rs \<noteq> []" shows "js_at (map Fin rs) (int (length rs) - 1) = Fin (last rs)"
  using js_at_map_Fin_pred[of "length rs" rs] assms by (simp add: last_conv_nth)





subsection \<open>Confidence values\<close>









subsection \<open>The volume profile on zero volumes\<close>

lemma map_set_values:
  "list_all (\<lambda>kv. snd kv = Fin 0) m \<Longrightarrow> list_all (\<lambda>kv. snd kv = Fin 0) (map_set m k (Fin 0))"
  by (induction m) auto

lemma map_get_zero:
  assumes "list_all (\<lambda>kv. snd kv = Fin 0) m"
  shows "js_or (num_of (map_get m k)) (Fin 0) = Fin 0"
proof (cases "map_of m k")
  case None
  then show ?thesis by (simp add: map_get_def num_of_def js_or_def truthy_def)
next
  case (Some v)
  then have "(k, v) \<in> set m" by (rule map_of_SomeD)
  then have "v = Fin 0" using assms by (auto simp: list_all_iff)
  then show ?thesis using Some by (simp add: map_get_def num_of_def js_or_def truthy_def)
qed

lemma buildPriceVolume_fold_zero:
  assumes "\<forall>i\<in>set is. i < n" "list_all (\<lambda>kv. snd kv = Fin 0) m"
  shows "list_all (\<lambda>kv. snd kv = Fin 0) (fold (\<lambda>i priceVolume.
             let roundedPrice = js_round (js_at prices (int i) / Fin 10) * Fin 10
             in map_set priceVolume roundedPrice
                  (js_or (num_of (map_get priceVolume roundedPrice)) (Fin 0)
                     + js_at (replicate n (Fin 0)) (int i))) is m)"
  using assms
proof (induction "is" arbitrary: m)
  case Nil
  then show ?case by simp
next
  case (Cons i "is")
  have i: "i < n" using Cons.prems(1) by simp
  have step: "list_all (\<lambda>kv. snd kv = Fin 0) (map_set m (js_round (js_at prices (int i) / Fin 10) * Fin 10) (Fin 0))"
    using Cons.prems(2) by (rule map_set_values)
  have "\<forall>j\<in>set is. j < n" using Cons.prems(1) by simp
  from Cons.IH[OF this step] show ?case
    by (simp add: Let_def map_get_zero[OF Cons.prems(2)] js_at_replicate[OF i])
qed

lemma buildPriceVolume_zero:
  assumes "length prices \<le> n"
  shows "list_all (\<lambda>kv. snd kv = Fin 0) (buildPriceVolume prices (replicate n (Fin 0)))"
proof -
  have "\<forall>i\<in>set [0..<length prices]. i < n" using assms by auto
  then show ?thesis unfolding buildPriceVolume_def
    by (rule buildPriceVolume_fold_zero) simp
qed

lemma valueAreaLoop_exit:
  "\<not> jlt volumeSum valueAreaVolume \<Longrightarrow>
   valueAreaLoop priceVolume pricesSorted valueAreaVolume volumeSum lo hi = Some (volumeSum, lo, hi)"
  by (subst valueAreaLoop.simps) simp

lemma calculateVolumeProfile_zero_volumes:
  assumes "length prices \<le> n"
  shows "\<exists>p. calculateVolumeProfile prices (replicate n (Fin 0)) = Some p"
proof (cases "prices = [] \<or> replicate n (Fin 0 :: jsnum) = []")
  case True
  then show ?thesis unfolding calculateVolumeProfile_def by (simp only: if_True) blast
next
  case False
  have "\<forall>x\<in>set (map snd (buildPriceVolume prices (replicate n (Fin 0)))). x = Fin 0"
    using buildPriceVolume_zero[OF assms] by (auto simp: list_all_iff)
  then have tv: "js_sum (map snd (buildPriceVolume prices (replicate n (Fin 0)))) = Fin 0"
    by (rule js_sum_zeros)
  show ?thesis
    unfolding calculateVolumeProfile_def Let_def tv
    using False by (simp add: valueAreaLoop_exit)
qed

lemma valid_series_passes_validation:
  "valid_series prices \<Longrightarrow> \<not> list_ex (\<lambda>p. isNaN p \<or> jle p (Fin 0)) prices"
proof -
  assume "valid_series prices"
  then obtain rs where "prices = map Fin rs" "\<forall>r\<in>set rs. 0 < r" using valid_series_reals by blast
  then show ?thesis by (auto simp: list_ex_iff isNaN_def)
qed

lemma calculateTechnicalSignals_short:
  "length prices < 200 \<Longrightarrow>
   calculateTechnicalSignals nts prices volumes = Some (Inl ''Insufficient price data'')"
  by (simp add: calculateTechnicalSignals_def)

lemma calculateTechnicalSignals_zero_volumes:
  assumes "valid_series prices" "200 \<le> length prices" "200 \<le> n"
  shows "\<exists>ts. calculateTechnicalSignals nts prices (replicate n (Fin 0)) = Some (Inr ts)"
proof -
  have "length (slice_last 200 prices) \<le> 200" by (simp add: slice_last_def)
  moreover have "slice_last 200 (replicate n (Fin 0 :: jsnum)) = replicate 200 (Fin 0)"
    using assms(3) by (simp add: slice_last_def)
  ultimately obtain p where
    "calculateVolumeProfile (slice_last 200 prices) (slice_last 200 (replicate n (Fin 0))) = Some p"
    using calculateVolumeProfile_zero_volumes[of "slice_last 200 prices" 200] by auto
  then show ?thesis
    using assms(2) valid_series_passes_validation[OF assms(1)]
    by (simp add: calculateTechnicalSignals_def Let_def)
qed

subsection \<open>The assembly of the report\<close>

lemma generateRiskWarnings_not_default:
  "generateRiskWarnings v t r \<noteq> [''Using default analysis due to data unavailability'']"
  by (simp add: generateRiskWarnings_def Let_def)

lemma analyzeRisk_answers:
  "\<exists>risk. analyzeRisk prices volumes v t news (Some es) = Inr risk
      \<and> warnings risk = generateRiskWarnings v t
            (js_at volumes (int (length volumes) - 1) / js_at volumes (int (length volumes) - 2))"
  by (simp add: analyzeRisk_def calculateSentimentScore_def Let_def)

lemma getDefaultAnalysis_returns:
  "(\<exists>report. getDefaultAnalysis crypto = Inr report)
     = (defaultRanges (toLowerCase crypto) \<noteq> InheritedMember)"
proof -
  have "(\<exists>report. getDefaultAnalysis crypto = Inr report)
          = (\<exists>mc. getDefaultMarketPhase (Fin 76000) crypto = Inr mc)"
    by (auto simp add: getDefaultAnalysis_def Let_def split: sum.splits)
  then show ?thesis by (simp add: getDefaultMarketPhase_returns)
qed

lemma getDefaultAnalysis_throws:
  "defaultRanges (toLowerCase crypto) = InheritedMember
     \<Longrightarrow> getDefaultAnalysis crypto = Inl ''TypeError''"
  by (simp add: getDefaultAnalysis_def getDefaultMarketPhase_def Let_def)

lemma getDefaultAnalysis_warnings:
  "getDefaultAnalysis crypto = Inr d
     \<Longrightarrow> warnings (riskAnalysis d) = [''Using default analysis due to data unavailability'']"
  by (auto simp add: getDefaultAnalysis_def Let_def split: sum.splits)

lemma assembleAnalysis_answers:
  assumes "getSentiment sv crypto = Inr (Some es)" "getNews sv crypto = Inr newsData"
    "\<forall>x. \<exists>st. generateStrategy sv x = Inr st"
    and mc: "calculateMarketPhase (trendModel sv) prices volumes crypto = Inr mc"
  shows "\<exists>a. assembleAnalysis sv crypto prices volumes cp ts = Inr a
           \<and> Inr a \<noteq> getDefaultAnalysis crypto
           \<and> marketCondition a = mc"
proof -
  let ?news = "case newsData of None \<Rightarrow> [] | Some n \<Rightarrow> n"
  obtain risk where risk: "analyzeRisk prices volumes (vol_current (ts_volatility ts))
       (trend_strength (ts_trend ts)) ?news (Some es) = Inr risk"
     "warnings risk = generateRiskWarnings (vol_current (ts_volatility ts)) (trend_strength (ts_trend ts))
            (js_at volumes (int (length volumes) - 1) / js_at volumes (int (length volumes) - 2))"
    using analyzeRisk_answers by blast
  have "\<exists>sc. calculateSentimentScore ?news (Some es) = Inr sc"
    by (simp add: calculateSentimentScore_def Let_def)
  then obtain sc where sc: "calculateSentimentScore ?news (Some es) = Inr sc" by blast
  have "\<exists>sg. determineSentimentSignal (Some es) = Inr sg"
    by (simp add: determineSentimentSignal_def Let_def)
  then obtain sg where sg: "determineSentimentSignal (Some es) = Inr sg" by blast
  obtain st where st: "generateStrategy sv
                 \<lparr> si_currentPrice = cp,
                   si_marketCondition = mc,
                   si_technicalSignals = ts,
                   si_sentimentAnalysis = sc,
                   si_riskAnalysis = risk,
                   si_predictions = predictPriceTargets
                          \<lparr> pd_prices = prices, pd_volumes = volumes,
                            pd_currentPrice = cp,
                            pd_volatility = vol_current (ts_volatility ts),
                            pd_sentiment = firstVolumeOr50 (Some es) \<rparr> \<rparr> = Inr st"
    using assms(3) by blast
  have w: "warnings risk \<noteq> [''Using default analysis due to data unavailability'']"
    unfolding risk(2) by (simp add: generateRiskWarnings_not_default)
  obtain a where a: "assembleAnalysis sv crypto prices volumes cp ts = Inr a" "riskAnalysis a = risk"
    "marketCondition a = mc"
    unfolding assembleAnalysis_def Let_def assms(1,2) mc by (simp add: risk(1) sc sg st)
  have "Inr a \<noteq> getDefaultAnalysis crypto"
  proof
    assume "Inr a = getDefaultAnalysis crypto"
    then have "warnings (riskAnalysis a) = [''Using default analysis due to data unavailability'']"
      using getDefaultAnalysis_warnings[of crypto a] by simp
    then show False using w a(2) by simp
  qed
  then show ?thesis using a by blast
qed

subsection \<open>The full analysis on zero volumes\<close>

lemma getFullAnalysis_answers:
  assumes "getHistoricalData sv crypto = Inr (Some h)" "h_prices h = Some prices"
    "valid_series prices" "200 \<le> length prices"
    "h_volumes h = Some (replicate n (Fin 0))" "200 \<le> n"
    "getSentiment sv crypto = Inr (Some es)" "getNews sv crypto = Inr newsData"
    "\<forall>x. \<exists>st. generateStrategy sv x = Inr st"
    "calculateMarketPhase (trendModel sv) prices (replicate n (Fin 0)) crypto = Inr mc"
  shows "\<exists>a. getFullAnalysis sv crypto = Some (Inr a) \<and> Inr a \<noteq> getDefaultAnalysis crypto
           \<and> marketCondition a = mc"
proof -
  obtain rs where rs: "prices = map Fin rs" "\<forall>r\<in>set rs. 0 < r"
    using assms(3) valid_series_reals by blast
  have ne: "rs \<noteq> []" using assms(4) rs by auto
  have lastp: "js_at prices (int (length prices) - 1) = Fin (last rs)"
    using js_at_map_Fin_last[OF ne] rs(1) by simp
  have "0 < last rs" using rs(2) ne by simp
  then have tr: "truthy (js_or (num_of (h_current_price h)) (js_at prices (int (length prices) - 1)))"
    unfolding lastp by (simp add: js_or_def truthy_def)
  obtain ts where ts: "calculateTechnicalSignals (numToString sv) prices (replicate n (Fin 0)) = Some (Inr ts)"
    using calculateTechnicalSignals_zero_volumes[OF assms(3,4,6)] by blast
  obtain a where a: "assembleAnalysis sv crypto prices (replicate n (Fin 0))
        (js_or (num_of (h_current_price h)) (js_at prices (int (length prices) - 1))) ts = Inr a"
      "Inr a \<noteq> getDefaultAnalysis crypto"
      "marketCondition a = mc"
    using assembleAnalysis_answers[OF assms(7,8,9,10)] by blast
  have pne: "prices \<noteq> []" using assms(4) by auto
  have "getFullAnalysis sv crypto = Some (Inr a)"
    unfolding getFullAnalysis_def Let_def using assms(4) tr pne
    by (simp add: assms(1,2,5) ts a(1))
  then show ?thesis using a(2,3) by blast
qed

subsection \<open>The default report on short series\<close>

lemma getFullAnalysis_short:
  assumes "getHistoricalData sv crypto = Inr (Some h)" "h_prices h = Some prices"
    "length prices < 200"
  shows "getFullAnalysis sv crypto = Some (getDefaultAnalysis crypto)"
  unfolding getFullAnalysis_def Let_def
  using assms(3) by (simp add: assms(1,2) calculateTechnicalSignals_short)

lemma getFullAnalysis_rejects_inherited:
  assumes "getHistoricalData sv crypto = Inr (Some h)" "h_prices h = Some prices"
    "length prices < 200" "defaultRanges (toLowerCase crypto) = InheritedMember"
  shows "getFullAnalysis sv crypto = Some (Inl ''TypeError'')"
  using getFullAnalysis_short[OF assms(1,2,3)] getDefaultAnalysis_throws[OF assms(4)] by simp

section \<open>Claims\<close>

subsection \<open>Ordering of the key levels\<close>

text \<open>
  Claim C1, as amended. For every valid, non-empty price series (so also for every one of
  length at least 200) the key levels returned by \<^verbatim>\<open>calculateMarketPhase\<close> satisfy
  \<open>strongSupport \<le> support \<le> resistance \<le> strongResistance\<close>, and the pivot is the
  current (last) price rounded to two decimals, whether the trend model answers or the
  default phase is returned; when the trend model answers, also \<open>support \<le> pivot\<close>.
  That the pivot is at most the resistance is not part of the statement. The call returns
  key levels whenever the trend model answers, and when it rejects unless the lower-cased
  asset identifier names an inherited member of the table of default ranges.
\<close>

theorem keyLevels_ordering:
  assumes "valid_series prices" "prices \<noteq> []"
  shows "(calculateMarketPhase model prices volumeData crypto = Inr mc \<longrightarrow>
            jle (strongSupport (keyLevels mc)) (support (keyLevels mc))
          \<and> jle (support (keyLevels mc)) (resistance (keyLevels mc))
          \<and> jle (resistance (keyLevels mc)) (strongResistance (keyLevels mc))
          \<and> pivot (keyLevels mc) = toFixed2 (last prices)
          \<and> (analyzeTrendStrength model prices volumeData = Inr t \<longrightarrow>
               jle (support (keyLevels mc)) (pivot (keyLevels mc))))
       \<and> ((\<exists>t'. analyzeTrendStrength model prices volumeData = Inr t')
              \<or> defaultRanges (toLowerCase crypto) \<noteq> InheritedMember \<longrightarrow>
            (\<exists>mc'. calculateMarketPhase model prices volumeData crypto = Inr mc'))"
proof (intro conjI impI)
  assume "(\<exists>t'. analyzeTrendStrength model prices volumeData = Inr t')
              \<or> defaultRanges (toLowerCase crypto) \<noteq> InheritedMember"
  then show "\<exists>mc'. calculateMarketPhase model prices volumeData crypto = Inr mc'"
    using calculateMarketPhase_returns[OF assms(2)] by blast
next
  assume mc: "calculateMarketPhase model prices volumeData crypto = Inr mc"
  obtain rs where rs: "prices = map Fin rs" "\<forall>r\<in>set rs. 0 < r"
    using assms(1) valid_series_reals by blast
  have ne: "rs \<noteq> []" using assms(2) rs by simp
  have cp: "0 < last rs" using rs ne by simp
  have lastp: "last prices = Fin (last rs)" using rs ne by (simp add: last_map)
  have "jle (strongSupport (keyLevels mc)) (support (keyLevels mc))
          \<and> jle (support (keyLevels mc)) (resistance (keyLevels mc))
          \<and> jle (resistance (keyLevels mc)) (strongResistance (keyLevels mc))
          \<and> pivot (keyLevels mc) = toFixed2 (last prices)
          \<and> (analyzeTrendStrength model prices volumeData = Inr t \<longrightarrow>
               jle (support (keyLevels mc)) (pivot (keyLevels mc)))"
  proof (cases "analyzeTrendStrength model prices volumeData")
    case (Inl e')
    have "getDefaultMarketPhase (Fin (last rs)) crypto = Inr mc"
      using marketPhase_caught_valid[OF Inl[unfolded rs(1)] ne cp, of crypto] mc rs(1) by simp
    then obtain x y where "keyLevels mc =
           \<lparr> strongSupport = Fin (round2 (x * 0.98)), support = Fin (round2 x),
             pivot = Fin (round2 (last rs)), resistance = Fin (round2 y),
             strongResistance = Fin (round2 (y * 1.02)) \<rparr>" "0 < x" "x \<le> y"
      using getDefaultMarketPhase_levels[OF cp] by blast
    moreover have "round2 (x * 0.98) \<le> round2 x" "round2 x \<le> round2 y" "round2 y \<le> round2 (y * 1.02)"
      using \<open>0 < x\<close> \<open>x \<le> y\<close> by (auto intro!: round2_mono)
    ultimately show ?thesis using Inl lastp by simp
  next
    case (Inr t')
    then obtain l x where l: "l \<in> set (slice_last 20 rs)" "\<forall>r\<in>set (slice_last 20 rs). l \<le> r"
      and mp: "calculateMarketPhase model prices volumeData crypto =
               Inr \<lparr> phase = ''sideways'', strength = toFixed2 (abs t'),
                 confidence = toFixed2 (calculateConfidence [abs t' * Fin 100, Fin 60, Fin 60, Fin x]),
                 keyLevels = validatedKeyLevels (Fin (last rs)) (Fin (max l (last rs * 0.95)))
                               (Fin (max l (last rs * 0.95) * 1.01)) \<rparr>"
      using marketPhase_valid[OF rs(2) ne, of model volumeData t' crypto] rs(1) by blast
    have kl: "keyLevels mc = validatedKeyLevels (Fin (last rs)) (Fin (max l (last rs * 0.95)))
                               (Fin (max l (last rs * 0.95) * 1.01))"
      using mp mc by auto
    have "last rs \<in> set (slice_last 20 rs)"
      using last_slice_last[OF ne, of 20] slice_last_nonempty[OF ne, of 20] last_in_set by fastforce
    then have "l \<le> last rs" using l(2) by blast
    moreover have "0 < l" using l(1) set_slice_last[of 20 rs] rs(2) by auto
    ultimately have s: "0 < max l (last rs * 0.95)" "max l (last rs * 0.95) \<le> last rs"
      "last rs * 0.95 \<le> max l (last rs * 0.95)" using cp by simp_all
    from validatedKeyLevels_valid[OF s] kl lastp show ?thesis by auto
  qed
  then show "jle (strongSupport (keyLevels mc)) (support (keyLevels mc))"
    "jle (support (keyLevels mc)) (resistance (keyLevels mc))"
    "jle (resistance (keyLevels mc)) (strongResistance (keyLevels mc))"
    "pivot (keyLevels mc) = toFixed2 (last prices)"
    "analyzeTrendStrength model prices volumeData = Inr t \<Longrightarrow>
       jle (support (keyLevels mc)) (pivot (keyLevels mc))"
    by auto
qed

text \<open>Witness for C1: the series \<open>100, 90\<close> with a trend model answering \<open>0.5\<close>.\<close>

theorem keyLevels_ordering_witness:
  "valid_series [Fin 100, Fin 90] \<and> [Fin 100, Fin 90] \<noteq> []
   \<and> analyzeTrendStrength (constModel (Fin 0.5)) [Fin 100, Fin 90] [] = Inr (Fin 0.5)
   \<and> (\<exists>mc. calculateMarketPhase (constModel (Fin 0.5)) [Fin 100, Fin 90] [] ''bitcoin'' = Inr mc
        \<and> jle (strongSupport (keyLevels mc)) (support (keyLevels mc))
        \<and> jle (support (keyLevels mc)) (resistance (keyLevels mc))
        \<and> jle (resistance (keyLevels mc)) (strongResistance (keyLevels mc))
        \<and> pivot (keyLevels mc) = toFixed2 (last [Fin 100, Fin 90])
        \<and> jle (support (keyLevels mc)) (pivot (keyLevels mc)))"
proof -
  have v: "valid_series [Fin 100, Fin 90]" by (simp add: valid_series_def)
  have n: "[Fin 100, Fin 90] \<noteq> []" by simp
  have a: "analyzeTrendStrength (constModel (Fin 0.5)) [Fin 100, Fin 90] [] = Inr (Fin 0.5)"
    by (rule analyze_constModel)
  obtain mc where mc: "calculateMarketPhase (constModel (Fin 0.5)) [Fin 100, Fin 90] [] ''bitcoin'' = Inr mc"
    using keyLevels_ordering[OF v n, where model = "constModel (Fin 0.5)" and volumeData = "[]"
        and crypto = "''bitcoin''"] a by blast
  show ?thesis
    using keyLevels_ordering[OF v n, where model = "constModel (Fin 0.5)" and volumeData = "[]"
        and crypto = "''bitcoin''" and mc = mc and t = "Fin 0.5"] v a mc
    by auto
qed

text \<open>
  Counterexample to C1 as stated: on the series rising from 1 to 200 the support is
  \<open>max(181, 0.95 \<sqdot> 200) = 190\<close>, the moving averages read \<open>0\<close>, the resistance is
  \<open>190 \<sqdot> 1.01 = 191.9\<close>, and the pivot \<open>200\<close> lies above it.
\<close>

theorem pivot_above_resistance_rising200:
  "valid_series rising200 \<and> length rising200 = 200
   \<and> (\<exists>mc. calculateMarketPhase (constModel (Fin 0.5)) rising200 (replicate 200 (Fin 1000)) ''bitcoin''
             = Inr mc
        \<and> pivot (keyLevels mc) = Fin 200
        \<and> resistance (keyLevels mc) = Fin 191.9
        \<and> \<not> jle (pivot (keyLevels mc)) (resistance (keyLevels mc)))"
proof -
  let ?rs = "map real [1..<201]"
  have pos: "\<forall>r\<in>set ?rs. 0 < r" by (simp del: upt_Suc)
  have ne: "?rs \<noteq> []" by simp
  have lst: "last ?rs = 200" by (simp add: last_map del: upt_Suc)
  have rec: "slice_last 20 ?rs = map real [181..<201]" by (simp add: slice_last_def drop_map del: upt_Suc)
  obtain l x where l: "\<forall>r\<in>set (slice_last 20 ?rs). l \<le> r"
    and mp: "calculateMarketPhase (constModel (Fin 0.5)) (map Fin ?rs) (replicate 200 (Fin 1000)) ''bitcoin'' =
               Inr \<lparr> phase = ''sideways'', strength = toFixed2 (abs (Fin 0.5)),
                 confidence = toFixed2 (calculateConfidence [abs (Fin 0.5) * Fin 100, Fin 60, Fin 60, Fin x]),
                 keyLevels = validatedKeyLevels (Fin (last ?rs)) (Fin (max l (last ?rs * 0.95)))
                               (Fin (max l (last ?rs * 0.95) * 1.01)) \<rparr>"
    using marketPhase_valid[OF pos ne analyze_constModel] by blast
  have "l \<le> real 181" using l unfolding rec by (simp del: upt_Suc)
  then have s: "max l (last ?rs * 0.95) = 190" using lst by simp
  obtain mc where mc: "calculateMarketPhase (constModel (Fin 0.5)) rising200 (replicate 200 (Fin 1000)) ''bitcoin''
        = Inr mc" and kl: "keyLevels mc = validatedKeyLevels (Fin 200) (Fin 190) (Fin (190 * 1.01))"
    unfolding rising200_reals mp s using lst by simp
  have "pivot (keyLevels mc) = Fin 200 \<and> resistance (keyLevels mc) = Fin 191.9
        \<and> \<not> jle (pivot (keyLevels mc)) (resistance (keyLevels mc))"
    unfolding kl by (simp add: validatedKeyLevels_def Let_def isNaN_def round2_def)
  then show ?thesis using valid_rising200 mc by (auto simp add: rising200_def)
qed

subsection \<open>The moving averages read at index 0\<close>

text \<open>
  Claim C3. For every non-empty price series and every period of at least 2 the first
  element of \<^verbatim>\<open>calculateSMA\<close> is the fill value \<open>0\<close>. So for every valid, non-empty
  price series the three moving averages of \<^verbatim>\<open>calculateMarketPhase\<close>, each read at
  index \<open>0\<close>, are \<open>0\<close>, and whenever the trend model answers (the path that does not
  end in the \<^verbatim>\<open>catch\<close>) the call returns and the phase is \<open>sideways\<close>.
\<close>

theorem sma_fill_value_phase_sideways:
  "(prices \<noteq> [] \<longrightarrow> 2 \<le> period \<longrightarrow> hd (calculateSMA prices period) = Fin 0)
   \<and> (valid_series ps \<longrightarrow> ps \<noteq> [] \<longrightarrow>
        hd (calculateSMA ps 20) = Fin 0 \<and> hd (calculateSMA ps 50) = Fin 0
        \<and> hd (calculateSMA ps 200) = Fin 0
        \<and> (analyzeTrendStrength model ps vs = Inr t \<longrightarrow>
             (\<exists>mc. calculateMarketPhase model ps vs crypto = Inr mc \<and> phase mc = ''sideways'')))"
proof (intro conjI impI)
  assume v: "valid_series ps" and n: "ps \<noteq> []" and ok: "analyzeTrendStrength model ps vs = Inr t"
  obtain rs where rs: "ps = map Fin rs" "\<forall>r\<in>set rs. 0 < r" using v valid_series_reals by blast
  have ne: "rs \<noteq> []" using n rs by simp
  from marketPhase_valid[OF rs(2) ne, of model vs t crypto] ok rs(1)
  show "\<exists>mc. calculateMarketPhase model ps vs crypto = Inr mc \<and> phase mc = ''sideways''" by auto
qed (simp_all add: calculateSMA_hd)

text \<open>Witness for C3: the series \<open>7, 8\<close> with period 2, and the series \<open>100, 90\<close>.\<close>

theorem sma_fill_value_phase_sideways_witness:
  "[Fin 7, Fin 8] \<noteq> [] \<and> (2::nat) \<le> 2 \<and> hd (calculateSMA [Fin 7, Fin 8] 2) = Fin 0
   \<and> valid_series [Fin 100, Fin 90] \<and> [Fin 100, Fin 90] \<noteq> []
   \<and> hd (calculateSMA [Fin 100, Fin 90] 20) = Fin 0 \<and> hd (calculateSMA [Fin 100, Fin 90] 50) = Fin 0
   \<and> hd (calculateSMA [Fin 100, Fin 90] 200) = Fin 0
   \<and> analyzeTrendStrength (constModel (Fin 0.5)) [Fin 100, Fin 90] [] = Inr (Fin 0.5)
   \<and> (\<exists>mc. calculateMarketPhase (constModel (Fin 0.5)) [Fin 100, Fin 90] [] ''bitcoin'' = Inr mc
        \<and> phase mc = ''sideways'')"
proof -
  have v: "valid_series [Fin 100, Fin 90]" by (simp add: valid_series_def)
  show ?thesis
    using sma_fill_value_phase_sideways[of "[Fin 7, Fin 8]" 2 "[Fin 100, Fin 90]"
        "constModel (Fin 0.5)" "[]" "Fin 0.5" "''bitcoin''"] v
    by (auto simp add: analyze_constModel)
qed

subsection \<open>Resistance against support\<close>




subsection \<open>The relative strength index at its edges\<close>




subsection \<open>Risk warnings\<close>

text \<open>
  Claim C8, at the input where the code departs from it: with volatility 10, trend strength
  \<open>-0.5\<close> and volume ratio 1, \<^verbatim>\<open>generateRiskWarnings\<close> returns the weak-trend warning,
  although the magnitude of the trend strength, \<open>0.5\<close>, is not below \<open>0.3\<close>.
\<close>

theorem weak_trend_warning_on_strong_downtrend:
  "generateRiskWarnings (Fin 10) (Fin (- 0.5)) (Fin 1) = [''Weak market trend'']
   \<and> \<not> jlt (abs (Fin (- 0.5))) (Fin 0.3)"
  by (simp add: generateRiskWarnings_def Let_def jgt_def)

subsection \<open>The rising scenario\<close>

text \<open>
  Claim C2, at the input where the code departs from it: on the series rising from 1 to
  200 with flat volumes, and a trend model answering \<open>0.9\<close>, the call returns and the
  phase is \<open>sideways\<close>, because the moving averages are read at index \<open>0\<close> of the rolling
  series, where the fill value \<open>0\<close> stands. The RSI is \<open>10000/101\<close>, above 50.
\<close>

theorem rising200_phase_sideways:
  "valid_series rising200 \<and> length rising200 = 200
   \<and> (\<exists>mc. calculateMarketPhase (constModel (Fin 0.9)) rising200 (replicate 200 (Fin 1000)) ''bitcoin''
             = Inr mc
        \<and> phase mc = ''sideways'')
   \<and> hd (calculateSMA rising200 50) = Fin 0
   \<and> calculateRSI rising200 14 = Fin (10000 / 101)"
proof -
  have ne: "map real [1..<201] \<noteq> []" by simp
  have pos: "\<forall>r\<in>set (map real [1..<201]). 0 < r" by (simp del: upt_Suc)
  have z: "snd (rsi_averages rising200 14) = Fin 0"
    unfolding rising200_reals using rsi_averages_nondecreasing[OF sorted_rising, of 14] by auto
  have r: "calculateRSI rising200 14 = Fin (100 - 100 / 101)"
    using z by (intro calculateRSI_zero_loss) (simp_all add: rising200_def)
  have h: "hd (calculateSMA rising200 50) = Fin 0"
    by (intro calculateSMA_hd) (simp_all add: rising200_def)
  from marketPhase_valid[OF pos ne analyze_constModel, of "Fin 0.9" "replicate 200 (Fin 1000)" "''bitcoin''"]
  have "\<exists>mc. calculateMarketPhase (constModel (Fin 0.9)) rising200 (replicate 200 (Fin 1000)) ''bitcoin''
             = Inr mc \<and> phase mc = ''sideways''" unfolding rising200_reals by auto
  then show ?thesis using valid_rising200 r h by (simp add: rising200_def)
qed

subsection \<open>Indicators that return NaN\<close>

text \<open>
  Claim C4, at inputs where the code departs from it: on the valid series of 200 prices of
  \<open>100\<close> both \<^verbatim>\<open>calculateStochRSI\<close> and \<^verbatim>\<open>calculateADX\<close> (period 14) return NaN,
  and on the valid series rising from 1 to 200 \<^verbatim>\<open>calculateStochRSI\<close> returns NaN.
\<close>

theorem flat_and_rising_series_nan_indicators:
  "valid_series (replicate 200 (Fin 100)) \<and> length (replicate 200 (Fin 100)) = 200
   \<and> calculateStochRSI (replicate 200 (Fin 100)) 14 = NaN
   \<and> calculateADX (replicate 200 (Fin 100)) 14 = NaN
   \<and> valid_series rising200 \<and> calculateStochRSI rising200 14 = NaN"
proof -
  have "calculateStochRSI rising200 14 = NaN"
    unfolding rising200_reals by (intro calculateStochRSI_nondecreasing sorted_rising) simp_all
  then show ?thesis
    by (simp add: calculateStochRSI_constant calculateADX_constant valid_series_def list_all_iff
        valid_rising200[unfolded valid_series_def list_all_iff])
qed

subsection \<open>Widening prediction ranges\<close>




subsection \<open>Confidence values\<close>




subsection \<open>The default report\<close>

text \<open>
  Claim C6, as amended. For every input where the fetched price series has fewer than 200
  points, and every asset identifier that in lower case is neither \<^verbatim>\<open>constructor\<close> nor
  \<^verbatim>\<open>__proto__\<close>, \<^verbatim>\<open>getFullAnalysis\<close> returns the fixed default report unchanged: so for
  a series with a single data point, and for a valid series of 20 to 199 points with all
  volumes zero. (Zero volumes are not what leads to the default report.)
\<close>

theorem default_report_below_200_points:
  assumes "getHistoricalData sv crypto = Inr (Some h)" "h_prices h = Some prices"
    "length prices < 200"
    "toLowerCase crypto \<noteq> ''constructor''" "toLowerCase crypto \<noteq> ''__proto__''"
  shows "\<exists>report. getDefaultAnalysis crypto = Inr report
           \<and> getFullAnalysis sv crypto = Some (Inr report)"
proof -
  have "defaultRanges (toLowerCase crypto) \<noteq> InheritedMember"
    using assms(4,5) by (simp add: defaultRanges_def)
  then obtain report where "getDefaultAnalysis crypto = Inr report"
    using getDefaultAnalysis_returns by blast
  then show ?thesis using getFullAnalysis_short[OF assms(1,2,3)] by simp
qed

text \<open>Witness for C6: a snapshot with the single price \<open>100\<close>, and one with 20 prices of
  \<open>100\<close> and 20 volumes of \<open>0\<close>.\<close>

theorem default_report_below_200_points_witness:
  "getHistoricalData (servicesWith [Fin 100] [Fin 0]) ''bitcoin''
     = Inr (Some \<lparr> h_prices = Some [Fin 100], h_volumes = Some [Fin 0], h_current_price = None,
                    h_market_cap = None, h_price_change_24h = None \<rparr>)
   \<and> length [Fin 100 :: jsnum] < 200
   \<and> toLowerCase ''bitcoin'' \<noteq> ''constructor'' \<and> toLowerCase ''bitcoin'' \<noteq> ''__proto__''
   \<and> (\<exists>report. getDefaultAnalysis ''bitcoin'' = Inr report
        \<and> getFullAnalysis (servicesWith [Fin 100] [Fin 0]) ''bitcoin'' = Some (Inr report))
   \<and> getHistoricalData (servicesWith (replicate 20 (Fin 100)) (replicate 20 (Fin 0))) ''bitcoin''
     = Inr (Some \<lparr> h_prices = Some (replicate 20 (Fin 100)), h_volumes = Some (replicate 20 (Fin 0)),
                    h_current_price = None, h_market_cap = None, h_price_change_24h = None \<rparr>)
   \<and> valid_series (replicate 20 (Fin 100))
   \<and> length (replicate 20 (Fin 100 :: jsnum)) < 200
   \<and> (\<exists>report. getDefaultAnalysis ''bitcoin'' = Inr report
        \<and> getFullAnalysis (servicesWith (replicate 20 (Fin 100)) (replicate 20 (Fin 0))) ''bitcoin''
            = Some (Inr report))"
proof -
  have v: "valid_series (replicate 20 (Fin 100))" by (simp add: valid_series_def list_all_iff)
  have k: "toLowerCase ''bitcoin'' \<noteq> ''constructor''" "toLowerCase ''bitcoin'' \<noteq> ''__proto__''"
    by (simp_all add: toLowerCase_def)
  have h1: "getHistoricalData (servicesWith [Fin 100] [Fin 0]) ''bitcoin''
     = Inr (Some \<lparr> h_prices = Some [Fin 100], h_volumes = Some [Fin 0], h_current_price = None,
                    h_market_cap = None, h_price_change_24h = None \<rparr>)"
    by (simp add: servicesWith_def)
  have h2: "getHistoricalData (servicesWith (replicate 20 (Fin 100)) (replicate 20 (Fin 0))) ''bitcoin''
     = Inr (Some \<lparr> h_prices = Some (replicate 20 (Fin 100)), h_volumes = Some (replicate 20 (Fin 0)),
                    h_current_price = None, h_market_cap = None, h_price_change_24h = None \<rparr>)"
    by (simp add: servicesWith_def)
  have p1: "h_prices \<lparr> h_prices = Some [Fin 100], h_volumes = Some [Fin 0], h_current_price = None,
                    h_market_cap = None, h_price_change_24h = None \<rparr> = Some [Fin 100]"
    and p2: "h_prices \<lparr> h_prices = Some (replicate 20 (Fin 100)), h_volumes = Some (replicate 20 (Fin 0)),
                    h_current_price = None, h_market_cap = None, h_price_change_24h = None \<rparr>
               = Some (replicate 20 (Fin 100))"
    by simp_all
  have l1: "length [Fin 100 :: jsnum] < 200" and l2: "length (replicate 20 (Fin 100 :: jsnum)) < 200"
    by simp_all
  show ?thesis
    using default_report_below_200_points[OF h1 p1 l1 k]
          default_report_below_200_points[OF h2 p2 l2 k]
          v k h1 h2 l1 l2
    by blast
qed

text \<open>
  Counterexample to C6 as stated: the valid series rising from 1 to 200 with 200 volumes of
  \<open>0\<close>. Every collaborator answers, the call returns, and the report is not the default
  one: its market phase is \<open>sideways\<close>, where the default report says \<open>Analyzing\<close>.
\<close>

theorem zero_volumes_not_default_report:
  "valid_series rising200 \<and> length rising200 = 200
   \<and> (\<exists>a. getFullAnalysis (servicesWith rising200 (replicate 200 (Fin 0))) ''bitcoin'' = Some (Inr a)
        \<and> Inr a \<noteq> getDefaultAnalysis ''bitcoin''
        \<and> phase (marketCondition a) = ''sideways'')
   \<and> (\<exists>d. getDefaultAnalysis ''bitcoin'' = Inr d \<and> phase (marketCondition d) = ''Analyzing'')"
proof -
  let ?sv = "servicesWith rising200 (replicate 200 (Fin 0))"
  have len: "length rising200 = 200" by (simp add: rising200_def)
  have h: "getHistoricalData ?sv ''bitcoin''
     = Inr (Some \<lparr> h_prices = Some rising200, h_volumes = Some (replicate 200 (Fin 0)),
                    h_current_price = None, h_market_cap = None, h_price_change_24h = None \<rparr>)"
    by (simp add: servicesWith_def)
  have s: "getSentiment ?sv ''bitcoin'' = Inr (Some [])" and n: "getNews ?sv ''bitcoin'' = Inr (Some [])"
    and g: "\<forall>x. \<exists>st. generateStrategy ?sv x = Inr st" and m: "trendModel ?sv = constModel (Fin 0.5)"
    by (simp_all add: servicesWith_def)
  have hp: "h_prices \<lparr> h_prices = Some rising200, h_volumes = Some (replicate 200 (Fin 0)),
                    h_current_price = None, h_market_cap = None, h_price_change_24h = None \<rparr>
              = Some rising200"
    and hv: "h_volumes \<lparr> h_prices = Some rising200, h_volumes = Some (replicate 200 (Fin 0)),
                    h_current_price = None, h_market_cap = None, h_price_change_24h = None \<rparr>
              = Some (replicate 200 (Fin 0))"
    by simp_all
  have l1: "200 \<le> length rising200" and l2: "(200::nat) \<le> 200" using len by simp_all
  have ne: "map real [1..<201] \<noteq> []" by simp
  have pos: "\<forall>r\<in>set (map real [1..<201]). 0 < r" by (simp del: upt_Suc)
  from marketPhase_valid[OF pos ne analyze_constModel, of "Fin 0.5" "replicate 200 (Fin 0)" "''bitcoin''"]
  obtain mc where mc0: "calculateMarketPhase (constModel (Fin 0.5)) rising200 (replicate 200 (Fin 0))
       ''bitcoin'' = Inr mc" and mc2: "phase mc = ''sideways''" unfolding rising200_reals by auto
  have mc: "calculateMarketPhase (trendModel ?sv) rising200 (replicate 200 (Fin 0)) ''bitcoin''
       = Inr mc" using mc0 m by simp
  obtain a where a: "getFullAnalysis ?sv ''bitcoin'' = Some (Inr a)" "Inr a \<noteq> getDefaultAnalysis ''bitcoin''"
    "marketCondition a = mc"
    using getFullAnalysis_answers[OF h hp valid_rising200 l1 hv l2 s n g mc] by blast
  have k: "defaultRanges (toLowerCase ''bitcoin'') \<noteq> InheritedMember"
    by (simp add: toLowerCase_def defaultRanges_def)
  then obtain d where d: "getDefaultAnalysis ''bitcoin'' = Inr d"
    using getDefaultAnalysis_returns by blast
  then have "phase (marketCondition d) = ''Analyzing''"
    by (auto simp add: getDefaultAnalysis_def getDefaultMarketPhase_def Let_def
        split: sum.splits option.splits)
  then show ?thesis using a mc2 d valid_rising200 len by auto
qed

end
